theory Spec2Isabelle
  imports Complex_Main
begin

section \<open>Data model (src/types.ts)\<close>

text \<open>
  JavaScript numbers are modelled as mathematical reals: every arithmetic operation of
  the source is the exact operation on \<^typ>\<open>real\<close>. Rounding, signed zeros, NaN and
  the infinities of IEEE doubles are outside this model.
\<close>

datatype AppMode = SKY | CLASSIFICATION | GALAXY | HR_DIAGRAM | CENSUS

text \<open>The spectral classes \<open>O, B, A, F, G, K, M\<close> of the source, prefixed.\<close>

datatype SpectralType = Sp_O | Sp_B | Sp_A | Sp_F | Sp_G | Sp_K | Sp_M

text \<open>The field \<open>id\<close> of a star is \<open>star_id\<close> here.\<close>

record Star =
  star_id :: nat
  ra :: real
  dec :: real
  hrX :: real
  hrY :: real
  galX :: real
  galY :: real
  galZ :: real
  spectralType :: SpectralType
  temperature :: real
  luminosity :: real
  radius :: real
  apparentMagnitude :: real
  absoluteMagnitude :: real
  distance :: real
  color :: string
  baseSize :: real

record ObserverState =
  latitude :: real
  localSiderealTime :: real
  lightPollutionLimit :: real
  isPaused :: bool
  timeSpeed :: real

section \<open>Star generation (src/services/starGen.ts)\<close>

definition TOTAL_STARS :: nat where
  "TOTAL_STARS = 7000"

fun TYPE_COLORS :: "SpectralType \<Rightarrow> string" where
  "TYPE_COLORS Sp_O = ''#9bb0ff''"
| "TYPE_COLORS Sp_B = ''#aabfff''"
| "TYPE_COLORS Sp_A = ''#cad7ff''"
| "TYPE_COLORS Sp_F = ''#f8f7ff''"
| "TYPE_COLORS Sp_G = ''#fff4ea''"
| "TYPE_COLORS Sp_K = ''#ffd2a1''"
| "TYPE_COLORS Sp_M = ''#ffcc6f''"

record SpectralWeight =
  sw_type :: SpectralType
  weight :: real
  minTemp :: real
  maxTemp :: real

definition SPECTRAL_WEIGHTS :: "SpectralWeight list" where
  "SPECTRAL_WEIGHTS =
     [\<lparr>sw_type = Sp_O, weight = 0.00003, minTemp = 30000, maxTemp = 50000\<rparr>,
      \<lparr>sw_type = Sp_B, weight = 0.0013, minTemp = 10000, maxTemp = 30000\<rparr>,
      \<lparr>sw_type = Sp_A, weight = 0.006, minTemp = 7500, maxTemp = 10000\<rparr>,
      \<lparr>sw_type = Sp_F, weight = 0.03, minTemp = 6000, maxTemp = 7500\<rparr>,
      \<lparr>sw_type = Sp_G, weight = 0.076, minTemp = 5200, maxTemp = 6000\<rparr>,
      \<lparr>sw_type = Sp_K, weight = 0.121, minTemp = 3700, maxTemp = 5200\<rparr>,
      \<lparr>sw_type = Sp_M, weight = 0.7645, minTemp = 2400, maxTemp = 3700\<rparr>]"

text \<open>
  The entropy source: the \<open>k\<close>-th call of \<open>Math.random()\<close> returns \<open>e k\<close>. Every function
  that draws takes the source and the number of draws made so far, and returns its result
  with the new number of draws.
\<close>

type_synonym Entropy = "nat \<Rightarrow> real"

definition random :: "Entropy \<Rightarrow> nat \<Rightarrow> real \<times> nat" where
  "random e k = (e k, Suc k)"

definition randomRange :: "real \<Rightarrow> real \<Rightarrow> Entropy \<Rightarrow> nat \<Rightarrow> real \<times> nat" where
  "randomRange min' max' e k =
     (let (r, k1) = random e k in (r * (max' - min') + min', k1))"

definition gaussianRandom :: "real \<Rightarrow> real \<Rightarrow> Entropy \<Rightarrow> nat \<Rightarrow> real \<times> nat" where
  "gaussianRandom mean stdev e k =
     (let (r1, k1) = random e k;
          u = 1 - r1;
          (v, k2) = random e k1;
          z = sqrt (- 2.0 * ln u) * cos (2.0 * pi * v)
      in (z * stdev + mean, k2))"

text \<open>\<open>Math.atan2(y, x)\<close> on reals (no signed zeros).\<close>

definition atan2 :: "real \<Rightarrow> real \<Rightarrow> real" where
  "atan2 y x =
     (if 0 < x then arctan (y / x)
      else if x < 0 then (if 0 \<le> y then arctan (y / x) + pi else arctan (y / x) - pi)
      else if 0 < y then pi / 2
      else if y < 0 then - (pi / 2)
      else 0)"

text \<open>Galactic \<open>(l, b)\<close> to equatorial \<open>(ra, dec)\<close>, all in degrees.\<close>

definition galacticToEquatorial :: "real \<Rightarrow> real \<Rightarrow> real \<times> real" where
  "galacticToEquatorial l b =
     (let deg2rad = pi / 180;
          rad2deg = 180 / pi;
          alphaG = 192.85 * deg2rad;
          deltaG = 27.13 * deg2rad;
          lCP = 122.93 * deg2rad;
          lRad = l * deg2rad;
          bRad = b * deg2rad;
          sinDec = sin deltaG * sin bRad + cos deltaG * cos bRad * cos (lRad - lCP);
          dec = arcsin sinDec;
          y = cos bRad * sin (lRad - lCP);
          x = cos deltaG * sin bRad - sin deltaG * cos bRad * cos (lRad - lCP);
          ra0 = atan2 y x + alphaG;
          ra1 = (if ra0 < 0 then ra0 + 2 * pi else ra0);
          ra2 = (if ra1 > 2 * pi then ra1 - 2 * pi else ra1)
      in (ra2 * rad2deg, dec * rad2deg))"

text \<open>
  The walk over the weight table: the first entry whose weight exceeds what is left of
  \<open>rand\<close>, or the initial \<open>typeData\<close> when the table is exhausted.
\<close>

fun pickType :: "SpectralWeight list \<Rightarrow> real \<Rightarrow> SpectralWeight \<Rightarrow> SpectralWeight" where
  "pickType [] rand typeData = typeData"
| "pickType (w # ws) rand typeData =
     (if rand < weight w then w else pickType ws (rand - weight w) typeData)"

text \<open>The body of the generation loop for index \<open>i\<close>.\<close>

definition generateStar :: "Entropy \<Rightarrow> nat \<Rightarrow> nat \<Rightarrow> Star \<times> nat" where
  "generateStar e i k =
     (let (rand, k1) = random e k;
          typeData = pickType SPECTRAL_WEIGHTS rand (last SPECTRAL_WEIGHTS);
          (temperature, k2) = randomRange (minTemp typeData) (maxTemp typeData) e k1;
          normalizedTemp = temperature / 5778;
          (f, k3) = randomRange 0.5 1.5 e k2;
          luminosity = normalizedTemp ^ 7 * f;
          radius = sqrt luminosity / normalizedTemp ^ 2;
          (r4, k4) = random e k3;
          angle = r4 * pi * 2;
          (g5, k5) = gaussianRandom 0 0.6 e k4;
          distFromCenter = \<bar>g5\<bar>;
          galX = cos (angle + distFromCenter * 4) * distFromCenter;
          galY = sin (angle + distFromCenter * 4) * distFromCenter;
          (galZ, k6) = gaussianRandom 0 0.08 e k5;
          distXY = sqrt (galX * galX + galY * galY);
          b = atan2 galZ distXY * (180 / pi);
          l = atan2 galY galX * (180 / pi);
          (ra, dec) = galacticToEquatorial l b;
          (x7, k7) = randomRange 0 3.8 e k6;
          distancePc = 10 powr x7;
          absMag = - 2.5 * log 10 luminosity + 4.83;
          appMag = absMag + 5 * (log 10 distancePc - 1);
          logTemp = log 10 temperature;
          hrX = - ((logTemp - 3.3) / (4.7 - 3.3) * 2 - 1);
          logLum = log 10 luminosity;
          hrY = (logLum - (- 4)) / (6 - (- 4)) * 2 - 1
      in (\<lparr>star_id = i, ra = ra, dec = dec, hrX = hrX, hrY = - hrY,
           galX = galX, galY = galY, galZ = galZ,
           spectralType = sw_type typeData, temperature = temperature,
           luminosity = luminosity, radius = radius,
           apparentMagnitude = appMag, absoluteMagnitude = absMag,
           distance = distancePc, color = TYPE_COLORS (sw_type typeData),
           baseSize = max 0.5 (2 - appMag / 10)\<rparr>, k7))"

function generateLoop :: "Entropy \<Rightarrow> nat \<Rightarrow> nat \<Rightarrow> Star list \<Rightarrow> Star list" where
  "generateLoop e i k stars =
     (if i < TOTAL_STARS then
        (case generateStar e i k of (star, k') \<Rightarrow> generateLoop e (Suc i) k' (stars @ [star]))
      else stars)"
  by pat_completeness auto
termination
  by (relation "measure (\<lambda>(e, i, k, stars). TOTAL_STARS - i)") auto

declare generateLoop.simps [simp del]

text \<open>The catalogue: the generated stars, sorted (stably) by apparent magnitude.\<close>

definition generateStars :: "Entropy \<Rightarrow> Star list" where
  "generateStars e = sort_key apparentMagnitude (generateLoop e 0 0 [])"

section \<open>Visualizer (src/components/Visualizer.tsx)\<close>

subsection \<open>Derived limits\<close>

definition instrumentLimit :: "real \<Rightarrow> real" where
  "instrumentLimit observationalPower = 3 + (observationalPower * 12)"

definition pollutionLimit :: "ObserverState \<Rightarrow> real" where
  "pollutionLimit observer = 2.5 + (lightPollutionLimit observer * 4.5)"

definition effectiveLimit :: "real \<Rightarrow> ObserverState \<Rightarrow> real" where
  "effectiveLimit observationalPower observer =
     min (instrumentLimit observationalPower)
         (pollutionLimit observer + (observationalPower * 5))"

subsection \<open>Transition state\<close>

record Transition =
  progress :: real
  sourceMode :: AppMode
  targetMode :: AppMode
  startTime :: real
  duration :: real

text \<open>The initial value of \<open>transitionRef\<close> for a component mounted in mode \<open>m\<close>.\<close>

definition initialTransition :: "AppMode \<Rightarrow> Transition" where
  "initialTransition m =
     \<lparr>progress = 1, sourceMode = m, targetMode = m, startTime = 0, duration = 1500\<rparr>"

text \<open>
  The effect that runs when the \<open>mode\<close> property changes; \<open>now\<close> is the value read
  from \<open>performance.now()\<close>. The four assignments are made in the source's order.
\<close>

definition requestMode :: "AppMode \<Rightarrow> real \<Rightarrow> Transition \<Rightarrow> Transition" where
  "requestMode m now tr =
     (if m \<noteq> targetMode tr then
        (let tr1 = tr\<lparr>sourceMode := targetMode tr\<rparr>;
             tr2 = tr1\<lparr>targetMode := m\<rparr>;
             tr3 = tr2\<lparr>progress := 0\<rparr>
         in tr3\<lparr>startTime := now\<rparr>)
      else tr)"

text \<open>A sequence of mode requests, each with the time at which its effect runs.\<close>

fun requestModes :: "(AppMode \<times> real) list \<Rightarrow> Transition \<Rightarrow> Transition" where
  "requestModes [] tr = tr"
| "requestModes ((m, now) # rs) tr = requestModes rs (requestMode m now tr)"

text \<open>
  Step 2 of \<open>render\<close> (Transition Math): returns the updated transition state and the
  local \<open>t\<close> used for interpolation in the rest of the frame.
\<close>

definition transitionMath :: "Transition \<Rightarrow> real \<Rightarrow> Transition \<times> real" where
  "transitionMath tr time =
     (let t = progress tr in
      if t < 1 then
        (let elapsed = time - startTime tr;
             t1 = min (elapsed / duration tr) 1;
             ease = 1 - (1 - t1) ^ 3
         in (tr\<lparr>progress := ease\<rparr>, ease))
      else (tr, t))"

subsection \<open>JavaScript primitives\<close>

text \<open>
  The remainder operator \<open>%\<close> of JavaScript truncates the quotient towards zero, so the
  result has the sign of the dividend. (For a zero divisor JavaScript yields NaN; the
  source only divides by 360.)
\<close>

definition js_rem :: "real \<Rightarrow> real \<Rightarrow> real" where
  "js_rem x y =
     x - y * of_int (if 0 \<le> x / y then \<lfloor>x / y\<rfloor> else \<lceil>x / y\<rceil>)"

definition deg2rad :: real where
  "deg2rad = pi / 180"

subsection \<open>The per-star body of the render loop\<close>

text \<open>
  Altitude (degrees) and azimuth (radians) of a star for the current observer, as computed
  at the top of the \<open>forEach\<close> callback. On reals the argument of \<open>Math.asin\<close> is
  always in \<open>[-1, 1]\<close> (lemma \<open>sinAlt_range\<close> below), where \<^const>\<open>arcsin\<close> is the
  inverse sine.
\<close>

definition horizontal :: "ObserverState \<Rightarrow> Star \<Rightarrow> real \<times> real" where
  "horizontal currentObserver star =
     (let latRad = latitude currentObserver * deg2rad;
          sinLat = sin latRad;
          cosLat = cos latRad;
          lstRad = localSiderealTime currentObserver * deg2rad;
          raRad = ra star * deg2rad;
          decRad = dec star * deg2rad;
          haRad = lstRad - raRad;
          sinDec = sin decRad;
          cosDec = cos decRad;
          cosHA = cos haRad;
          sinHA = sin haRad;
          sinAlt = sinDec * sinLat + cosDec * cosLat * cosHA;
          altRad = arcsin sinAlt;
          altDeg = altRad * (180 / pi);
          cosAlt = cos altRad;
          cosAz = (sinDec - sinAlt * sinLat) / (cosAlt * cosLat + 0.0001);
          sinAz = (- cosDec * sinHA) / (cosAlt + 0.0001);
          azRad = atan2 sinAz cosAz
      in (altDeg, azRad))"

text \<open>\<open>getScreenPos\<close>: the offset from the canvas centre of a star in projection \<open>m\<close>.\<close>

definition getScreenPos ::
  "Star \<Rightarrow> real \<Rightarrow> real \<Rightarrow> real \<Rightarrow> real \<Rightarrow> AppMode \<Rightarrow> real \<times> real" where
  "getScreenPos star scaleFactor time altDeg azRad m =
     (case m of
        HR_DIAGRAM \<Rightarrow> (hrX star * scaleFactor * 1.5, hrY star * scaleFactor * 0.8)
      | GALAXY \<Rightarrow>
          (let rot = time * 0.00005;
               gx = galX star * cos rot - galY star * sin rot;
               gy = galX star * sin rot + galY star * cos rot
           in (gx * scaleFactor * 2.5, (gy * 0.4 + galZ star * 20) * scaleFactor * 2.5))
      | _ \<Rightarrow>
          (let r = (90 - altDeg) / 90;
               theta = azRad - pi / 2
           in (r * cos theta * scaleFactor * 1.8, r * sin theta * scaleFactor * 1.8)))"

definition starRadius :: "AppMode \<Rightarrow> Star \<Rightarrow> real" where
  "starRadius mode star =
     (let radius0 = max 0.5 ((15 - apparentMagnitude star) / 5) in
      if mode = HR_DIAGRAM then
        (let radius1 = log 10 (radius star * 10) * 2 in
         if radius1 < 1 then 1 else radius1)
      else radius0)"

text \<open>Fade out faint stars: the alpha before extinction and horizon fade.\<close>

definition fadeAlpha :: "real \<Rightarrow> Star \<Rightarrow> real" where
  "fadeAlpha effLimit star =
     (if apparentMagnitude star > effLimit - 1 then effLimit - apparentMagnitude star
      else 1)"

definition extinction :: "real \<Rightarrow> real" where
  "extinction altDeg = (if altDeg < 30 then (30 - altDeg) / 30 else 0)"

definition extinctionFactor :: "AppMode \<Rightarrow> Transition \<Rightarrow> real \<Rightarrow> real \<Rightarrow> real" where
  "extinctionFactor mode tr t altDeg =
     (if mode = SKY \<or> mode = CLASSIFICATION then 1 - (extinction altDeg * 0.7)
      else if sourceMode tr = SKY then
        (let skyExtinction = 1 - (extinction altDeg * 0.7)
         in skyExtinction + (1 - skyExtinction) * t)
      else 1)"

text \<open>The value of \<open>alpha\<close> when the test \<open>alpha <= 0\<close> is reached.\<close>

definition starAlpha :: "AppMode \<Rightarrow> real \<Rightarrow> Transition \<Rightarrow> real \<Rightarrow> real \<Rightarrow> Star \<Rightarrow> real" where
  "starAlpha mode effLimit tr t altDeg star =
     (let alpha1 = fadeAlpha effLimit star * extinctionFactor mode tr t altDeg in
      if altDeg < 0 \<and> (mode = SKY \<or> targetMode tr = SKY) then
        (let horizonFade = max 0 (1 + (altDeg / 5)) in alpha1 * horizonFade)
      else alpha1)"

text \<open>One filled circle handed to the drawing surface.\<close>

record DrawCmd =
  cmd_x :: real
  cmd_y :: real
  cmd_radius :: real
  cmd_fillStyle :: string
  cmd_globalAlpha :: real
  cmd_shadowBlur :: real

text \<open>
  The callback has four early returns. The outcome says which one was taken:
  \<open>Filtered\<close> for the two global filter checks, \<open>Culled\<close> for the hard horizon cull,
  \<open>Invisible\<close> for \<open>alpha <= 0\<close>; \<open>Drawn\<close> carries the circle that is painted, and is
  the only outcome that increments \<open>visibleCount\<close>.
\<close>

datatype Outcome = Filtered | Culled | Invisible | is_Drawn: Drawn (the_cmd: DrawCmd)

text \<open>The variables the callback closes over.\<close>

record Env =
  env_mode :: AppMode
  env_activeFilters :: "SpectralType list"
  env_effectiveLimit :: real
  env_currentObserver :: ObserverState
  env_transition :: Transition
  env_t :: real
  env_time :: real
  env_centerX :: real
  env_centerY :: real
  env_scaleFactor :: real

definition renderStar :: "Env \<Rightarrow> Star \<Rightarrow> Outcome" where
  "renderStar env star =
     (if spectralType star \<notin> set (env_activeFilters env) then Filtered
      else if apparentMagnitude star > env_effectiveLimit env then Filtered
      else
        (let (altDeg, azRad) = horizontal (env_currentObserver env) star in
         if progress (env_transition env) \<ge> 1
              \<and> (env_mode env = SKY \<or> env_mode env = CLASSIFICATION)
              \<and> altDeg < - 5
         then Culled
         else
           (let startPos = getScreenPos star (env_scaleFactor env) (env_time env) altDeg azRad
                             (sourceMode (env_transition env));
                endPos = getScreenPos star (env_scaleFactor env) (env_time env) altDeg azRad
                             (targetMode (env_transition env));
                currentX = env_centerX env
                             + (fst startPos + (fst endPos - fst startPos) * env_t env);
                currentY = env_centerY env
                             + (snd startPos + (snd endPos - snd startPos) * env_t env);
                radius = starRadius (env_mode env) star;
                alpha = starAlpha (env_mode env) (env_effectiveLimit env) (env_transition env)
                          (env_t env) altDeg star
            in if alpha \<le> 0 then Invisible
               else Drawn \<lparr>cmd_x = currentX, cmd_y = currentY, cmd_radius = radius,
                           cmd_fillStyle = color star, cmd_globalAlpha = alpha,
                           cmd_shadowBlur = (if radius > 1.8 \<and> alpha > 0.5 then radius * 3 else 0)\<rparr>)))"

text \<open>
  \<open>stars.forEach\<close> with the counter \<open>visibleCount\<close> and the circles painted so far.
\<close>

fun forEachStar :: "(Star \<Rightarrow> Outcome) \<Rightarrow> Star list \<Rightarrow> nat \<times> DrawCmd list \<Rightarrow> nat \<times> DrawCmd list" where
  "forEachStar f [] acc = acc"
| "forEachStar f (star # rest) (visibleCount, painted) =
     (case f star of
        Drawn c \<Rightarrow> forEachStar f rest (visibleCount + 1, painted @ [c])
      | _ \<Rightarrow> forEachStar f rest (visibleCount, painted))"

subsection \<open>One frame\<close>

record Refs =
  transitionRef :: Transition
  lastTimeRef :: real

text \<open>
  What a frame does to the outside: the new contents of the refs, the argument of the
  call of \<open>setObserver\<close> (if it is called), the background, the circles painted, the
  opacity of the horizon ring and of the HR axes (if drawn), and the argument of
  \<open>setStats\<close>.
\<close>

record Frame =
  frame_refs :: Refs
  frame_setObserver :: "ObserverState option"
  frame_gradient :: bool
  frame_painted :: "DrawCmd list"
  frame_horizon :: "real option"
  frame_axes :: "real option"
  frame_setStats :: nat

text \<open>Step 1 of \<open>render\<close> (Time and Rotation Update): the new \<open>lastTimeRef\<close> and \<open>delta\<close>.\<close>

definition frameDelta :: "real \<Rightarrow> real \<Rightarrow> real \<times> real" where
  "frameDelta lastTime time =
     (let lastTime1 = (if lastTime = 0 then time else lastTime);
          delta = time - lastTime1
      in (time, delta))"

definition updateLST :: "AppMode \<Rightarrow> ObserverState \<Rightarrow> real \<Rightarrow> ObserverState option" where
  "updateLST mode currentObserver delta =
     (if \<not> isPaused currentObserver \<and> mode = SKY then
        (let newLST = js_rem (localSiderealTime currentObserver
                                + (delta * 0.01 * timeSpeed currentObserver)) 360
         in Some (currentObserver\<lparr>localSiderealTime := newLST\<rparr>))
      else None)"

text \<open>
  The environment in which \<open>render\<close> runs the \<open>forEach\<close> callback, from the properties of
  the component (given as arguments), the client size \<open>width\<close>, \<open>height\<close> of the canvas,
  the refs and the frame time. The closure's \<open>effectiveLimit\<close> is computed from the
  properties, and \<open>observerRef.current\<close> holds the \<open>observer\<close> property.
\<close>

definition frameEnv ::
  "AppMode \<Rightarrow> real \<Rightarrow> SpectralType list \<Rightarrow> ObserverState
     \<Rightarrow> real \<Rightarrow> real \<Rightarrow> Refs \<Rightarrow> real \<Rightarrow> Env" where
  "frameEnv mode observationalPower activeFilters observer width height refs time =
     (let currentObserver = observer;
          (tr, t) = transitionMath (transitionRef refs) time;
          centerX = width / 2;
          centerY = height / 2;
          scaleFactor = min width height * 0.4
      in \<lparr>env_mode = mode, env_activeFilters = activeFilters,
          env_effectiveLimit = effectiveLimit observationalPower observer,
          env_currentObserver = currentObserver, env_transition = tr, env_t = t,
          env_time = time, env_centerX = centerX, env_centerY = centerY,
          env_scaleFactor = scaleFactor\<rparr>)"

text \<open>
  \<open>render\<close>: one animation frame at time \<open>time\<close>. The painted circles are the
  arguments of the calls of \<open>ctx.arc\<close> with the fill style, alpha and shadow blur set for
  them; the backing store of the canvas and its device pixel ratio are not modelled.
\<close>

definition render ::
  "Star list \<Rightarrow> AppMode \<Rightarrow> real \<Rightarrow> SpectralType list \<Rightarrow> ObserverState
     \<Rightarrow> real \<Rightarrow> real \<Rightarrow> Refs \<Rightarrow> real \<Rightarrow> Frame" where
  "render stars mode observationalPower activeFilters observer width height refs time =
     (let currentObserver = observer;
          (lastTime', delta) = frameDelta (lastTimeRef refs) time;
          setObs = updateLST mode currentObserver delta;
          (tr, t) = transitionMath (transitionRef refs) time;
          gradient = (mode = SKY \<or> (mode = CLASSIFICATION \<and> t < 1)
                        \<or> (sourceMode tr = SKY \<and> t < 1));
          env = frameEnv mode observationalPower activeFilters observer width height refs time;
          (visibleCount, painted) = forEachStar (renderStar env) stars (0, []);
          horizon = (if mode = SKY \<or> mode = CLASSIFICATION then Some t
                     else if sourceMode tr = SKY then Some (1 - t) else None);
          axes = (if mode = HR_DIAGRAM then Some t else None)
      in \<lparr>frame_refs = \<lparr>transitionRef = tr, lastTimeRef = lastTime'\<rparr>,
          frame_setObserver = setObs, frame_gradient = gradient, frame_painted = painted,
          frame_horizon = horizon, frame_axes = axes, frame_setStats = visibleCount\<rparr>)"

text \<open>The observer state of the application after the frame.\<close>

definition observerAfter ::
  "Star list \<Rightarrow> AppMode \<Rightarrow> real \<Rightarrow> SpectralType list \<Rightarrow> ObserverState
     \<Rightarrow> real \<Rightarrow> real \<Rightarrow> Refs \<Rightarrow> real \<Rightarrow> ObserverState" where
  "observerAfter stars mode observationalPower activeFilters observer width height refs time =
     (case frame_setObserver
             (render stars mode observationalPower activeFilters observer width height refs time) of
        Some obs \<Rightarrow> obs
      | None \<Rightarrow> observer)"

text \<open>
  The transition states the component can be in: the initial one, and those reached by
  mode requests and frames at arbitrary times.
\<close>

inductive reachable :: "Transition \<Rightarrow> bool" where
  reachable_init: "reachable (initialTransition m)"
| reachable_request: "reachable tr \<Longrightarrow> reachable (requestMode m now tr)"
| reachable_frame: "reachable tr \<Longrightarrow> reachable (fst (transitionMath tr time))"

section \<open>Inputs used in the examples\<close>

text \<open>The initial observer of the application (src/App.tsx).\<close>

definition defaultObserver :: ObserverState where
  "defaultObserver =
     \<lparr>latitude = 45, localSiderealTime = 0, lightPollutionLimit = 0.2,
      isPaused = False, timeSpeed = 1\<rparr>"

text \<open>The same observer at the north pole.\<close>

definition poleObserver :: ObserverState where
  "poleObserver = defaultObserver\<lparr>latitude := 90\<rparr>"

text \<open>A Sun-like star at declination \<open>d\<close> with apparent magnitude \<open>m\<close>.\<close>

definition probeStar :: "real \<Rightarrow> real \<Rightarrow> Star" where
  "probeStar d m =
     \<lparr>star_id = 0, ra = 0, dec = d, hrX = 0, hrY = 0, galX = 0, galY = 0, galZ = 0,
      spectralType = Sp_G, temperature = 5778, luminosity = 1, radius = 1,
      apparentMagnitude = m, absoluteMagnitude = 4.83, distance = 10,
      color = TYPE_COLORS Sp_G, baseSize = 1\<rparr>"

definition initialRefs :: "AppMode \<Rightarrow> Refs" where
  "initialRefs m = \<lparr>transitionRef = initialTransition m, lastTimeRef = 0\<rparr>"

text \<open>
  Draws of the entropy source that make every star a hot O star: the class draw is
  \<open>0.00001\<close>, all other draws are \<open>0.9\<close> (each star takes nine draws).
\<close>

definition hotDraws :: Entropy where
  "hotDraws k = (if k mod 9 = 0 then 1 / 100000 else 9 / 10)"

section \<open>Auxiliary facts\<close>

lemmas limit_defs = effectiveLimit_def instrumentLimit_def pollutionLimit_def

lemmas example_defs = probeStar_def poleObserver_def defaultObserver_def initialRefs_def
  initialTransition_def

lemma probeStar_simps:
  "spectralType (probeStar d m) = Sp_G"
  "apparentMagnitude (probeStar d m) = m"
  "dec (probeStar d m) = d"
  "radius (probeStar d m) = 1"
  by (simp_all add: probeStar_def)

lemma poleObserver_simps:
  "latitude poleObserver = 90"
  "lightPollutionLimit poleObserver = 0.2"
  "localSiderealTime poleObserver = 0"
  "isPaused poleObserver = False"
  "timeSpeed poleObserver = 1"
  by (simp_all add: poleObserver_def defaultObserver_def)

text \<open>The sine of the altitude is a sine: the altitude is between \<open>-90\<close> and \<open>90\<close> degrees.\<close>

lemma cauchy2:
  fixes a b c x :: real
  shows "(a * b + c * x)\<^sup>2 \<le> (a\<^sup>2 + c\<^sup>2) * (b\<^sup>2 + x\<^sup>2)"
proof -
  have "(a\<^sup>2 + c\<^sup>2) * (b\<^sup>2 + x\<^sup>2) - (a * b + c * x)\<^sup>2 = (a * x - c * b)\<^sup>2"
    by (simp add: power2_eq_square algebra_simps)
  moreover have "0 \<le> (a * x - c * b)\<^sup>2"
    by simp
  ultimately show ?thesis by linarith
qed

lemma sinAlt_range:
  fixes d l h :: real
  shows "\<bar>sin d * sin l + cos d * cos l * cos h\<bar> \<le> 1"
proof -
  define x where "x = cos l * cos h"
  have "(cos h)\<^sup>2 \<le> 1"
    by (simp add: abs_square_le_1)
  then have "(cos l)\<^sup>2 * (cos h)\<^sup>2 \<le> (cos l)\<^sup>2 * 1"
    by (intro mult_left_mono) simp_all
  then have x: "x\<^sup>2 \<le> (cos l)\<^sup>2"
    by (simp add: x_def power_mult_distrib)
  have "(sin d * sin l + cos d * x)\<^sup>2 \<le> ((sin d)\<^sup>2 + (cos d)\<^sup>2) * ((sin l)\<^sup>2 + x\<^sup>2)"
    by (rule cauchy2)
  also have "\<dots> = (sin l)\<^sup>2 + x\<^sup>2"
    by simp
  also have "\<dots> \<le> 1"
    using x sin_cos_squared_add [of l] by linarith
  finally have "(sin d * sin l + cos d * x)\<^sup>2 \<le> 1" .
  then have "\<bar>sin d * sin l + cos d * x\<bar> \<le> 1"
    by (simp add: abs_square_le_1)
  then show ?thesis
    by (simp add: x_def mult.assoc)
qed

lemma horizontal_altDeg_range:
  "- 90 \<le> fst (horizontal obs s) \<and> fst (horizontal obs s) \<le> 90"
proof -
  define x where "x = sin (dec s * deg2rad) * sin (latitude obs * deg2rad)
      + cos (dec s * deg2rad) * cos (latitude obs * deg2rad)
          * cos (localSiderealTime obs * deg2rad - ra s * deg2rad)"
  have "\<bar>x\<bar> \<le> 1"
    unfolding x_def by (rule sinAlt_range)
  then have x: "- 1 \<le> x" "x \<le> 1" by simp_all
  from arcsin_bounded [OF x] have a: "- (pi / 2) \<le> arcsin x" "arcsin x \<le> pi / 2"
    by simp_all
  have "- (pi / 2) * (180 / pi) \<le> arcsin x * (180 / pi)"
    using a(1) by (intro mult_right_mono) simp_all
  moreover have "arcsin x * (180 / pi) \<le> pi / 2 * (180 / pi)"
    using a(2) by (intro mult_right_mono) simp_all
  moreover have "fst (horizontal obs s) = arcsin x * (180 / pi)"
    by (simp add: horizontal_def Let_def x_def)
  ultimately show ?thesis by simp
qed

text \<open>At the pole the altitude of a star is its declination; three instances.\<close>

lemma horizontal_pole_zenith:
  "latitude obs = 90 \<Longrightarrow> dec s = 90 \<Longrightarrow> fst (horizontal obs s) = 90"
  by (simp add: horizontal_def Let_def deg2rad_def)

lemma horizontal_pole_nadir:
  "latitude obs = 90 \<Longrightarrow> dec s = - 90 \<Longrightarrow> fst (horizontal obs s) = - 90"
  by (simp add: horizontal_def Let_def deg2rad_def)

lemma horizontal_pole_horizon:
  "latitude obs = 90 \<Longrightarrow> dec s = 0 \<Longrightarrow> fst (horizontal obs s) = 0"
  by (simp add: horizontal_def Let_def deg2rad_def)

lemma requestModes_append:
  "requestModes (xs @ ys) tr = requestModes ys (requestModes xs tr)"
  by (induction xs arbitrary: tr) auto

text \<open>The loop over the stars, the frame and its environment, field by field.\<close>

lemma forEachStar_eq:
  "forEachStar f stars (n, ds) =
     (n + length (filter (\<lambda>s. is_Drawn (f s)) stars),
      ds @ map (\<lambda>s. the_cmd (f s)) (filter (\<lambda>s. is_Drawn (f s)) stars))"
  by (induction stars arbitrary: n ds) (auto split: Outcome.splits)

lemma transitionMath_snd: "snd (transitionMath tr time) = progress (fst (transitionMath tr time))"
  by (simp add: transitionMath_def Let_def)

lemma transitionMath_modes:
  "sourceMode (fst (transitionMath tr time)) = sourceMode tr"
  "targetMode (fst (transitionMath tr time)) = targetMode tr"
  "duration (fst (transitionMath tr time)) = duration tr"
  "startTime (fst (transitionMath tr time)) = startTime tr"
  by (simp_all add: transitionMath_def Let_def)

lemma transitionMath_le_1:
  assumes "progress tr \<le> 1"
  shows "progress (fst (transitionMath tr time)) \<le> 1"
proof (cases "progress tr < 1")
  case True
  have "0 \<le> (1 - min ((time - startTime tr) / duration tr) 1) ^ 3"
    by (rule zero_le_power) simp
  with True show ?thesis by (simp add: transitionMath_def Let_def)
next
  case False
  with assms show ?thesis by (simp add: transitionMath_def Let_def)
qed

lemma reachable_invariant:
  "reachable tr \<Longrightarrow> progress tr \<le> 1 \<and> duration tr = 1500"
proof (induction rule: reachable.induct)
  case (reachable_init m)
  show ?case by (simp add: initialTransition_def)
next
  case (reachable_request tr m now)
  then show ?case by (simp add: requestMode_def Let_def)
next
  case (reachable_frame tr time)
  then show ?case by (simp add: transitionMath_le_1 transitionMath_modes)
qed

lemma frameEnv_simps:
  "env_mode (frameEnv mode p fs obs w h refs time) = mode"
  "env_activeFilters (frameEnv mode p fs obs w h refs time) = fs"
  "env_effectiveLimit (frameEnv mode p fs obs w h refs time) = effectiveLimit p obs"
  "env_currentObserver (frameEnv mode p fs obs w h refs time) = obs"
  "env_transition (frameEnv mode p fs obs w h refs time) = fst (transitionMath (transitionRef refs) time)"
  "env_t (frameEnv mode p fs obs w h refs time) = snd (transitionMath (transitionRef refs) time)"
  "env_time (frameEnv mode p fs obs w h refs time) = time"
  "env_centerX (frameEnv mode p fs obs w h refs time) = w / 2"
  "env_centerY (frameEnv mode p fs obs w h refs time) = h / 2"
  "env_scaleFactor (frameEnv mode p fs obs w h refs time) = min w h * 0.4"
  by (simp_all add: frameEnv_def Let_def split_def)

lemma render_simps:
  "frame_refs (render stars mode p fs obs w h refs time) =
     \<lparr>transitionRef = fst (transitionMath (transitionRef refs) time),
      lastTimeRef = fst (frameDelta (lastTimeRef refs) time)\<rparr>"
  "frame_setObserver (render stars mode p fs obs w h refs time) =
     updateLST mode obs (snd (frameDelta (lastTimeRef refs) time))"
  "frame_painted (render stars mode p fs obs w h refs time) =
     map (\<lambda>s. the_cmd (renderStar (frameEnv mode p fs obs w h refs time) s))
       (filter (\<lambda>s. is_Drawn (renderStar (frameEnv mode p fs obs w h refs time) s)) stars)"
  "frame_setStats (render stars mode p fs obs w h refs time) =
     length (filter (\<lambda>s. is_Drawn (renderStar (frameEnv mode p fs obs w h refs time) s)) stars)"
  by (simp_all add: render_def Let_def split_def forEachStar_eq)

lemma renderStar_Drawn_alpha:
  assumes "renderStar env s = Drawn c"
  shows "cmd_globalAlpha c = starAlpha (env_mode env) (env_effectiveLimit env) (env_transition env)
            (env_t env) (fst (horizontal (env_currentObserver env) s)) s"
    and "0 < cmd_globalAlpha c"
    and "apparentMagnitude s \<le> env_effectiveLimit env"
    and "spectralType s \<in> set (env_activeFilters env)"
  using assms
  by (auto simp add: renderStar_def Let_def split_def split: if_splits)

lemma fadeAlpha_range:
  "apparentMagnitude s \<le> L \<Longrightarrow> 0 \<le> fadeAlpha L s \<and> fadeAlpha L s \<le> 1"
  by (simp add: fadeAlpha_def)

lemma extinction_nonneg: "0 \<le> extinction altDeg"
  by (simp add: extinction_def)

lemma extinctionFactor_le_1:
  assumes "t \<le> 1"
  shows "extinctionFactor mode tr t altDeg \<le> 1"
proof -
  have e: "0 \<le> extinction altDeg * 0.7"
    using extinction_nonneg [of altDeg] by simp
  have "(extinction altDeg * 0.7) * t \<le> (extinction altDeg * 0.7) * 1"
    using e assms by (rule mult_left_mono[rotated])
  then show ?thesis
    using e by (simp add: extinctionFactor_def Let_def algebra_simps)
qed

lemma starAlpha_le_1:
  assumes "t \<le> 1" and "apparentMagnitude s \<le> L"
  shows "starAlpha mode L tr t altDeg s \<le> 1"
proof -
  let ?a = "fadeAlpha L s" and ?e = "extinctionFactor mode tr t altDeg"
  have a: "0 \<le> ?a" "?a \<le> 1" using fadeAlpha_range [OF assms(2)] by simp_all
  have e: "?e \<le> 1" by (rule extinctionFactor_le_1 [OF assms(1)])
  have "?a * ?e \<le> ?a * 1" using e a(1) by (rule mult_left_mono)
  with a have p: "?a * ?e \<le> 1" by simp
  show ?thesis
  proof (cases "altDeg < 0 \<and> (mode = SKY \<or> targetMode tr = SKY)")
    case False
    with p show ?thesis by (auto simp add: starAlpha_def Let_def)
  next
    case True
    let ?h = "max 0 (1 + altDeg / 5)"
    from True have h: "0 \<le> ?h" "?h \<le> 1" by simp_all
    have "?a * ?e * ?h \<le> 1 * ?h" using p h(1) by (rule mult_right_mono)
    then have "?a * ?e * ?h \<le> ?h" by (simp only: mult_1)
    then have "?a * ?e * ?h \<le> 1" using h(2) by (rule order_trans)
    moreover from True have "starAlpha mode L tr t altDeg s = ?a * ?e * ?h"
      by (simp add: starAlpha_def Let_def)
    ultimately show ?thesis by simp
  qed
qed

text \<open>The remainder by 360: a multiple of 360 is taken off, towards zero.\<close>

lemma js_rem_360:
  "\<exists>k::int. js_rem x 360 = x - 360 * of_int k"
  "\<bar>js_rem x 360\<bar> < 360"
  "0 \<le> x \<Longrightarrow> 0 \<le> js_rem x 360"
proof -
  show "\<exists>k::int. js_rem x 360 = x - 360 * of_int k"
    by (auto simp add: js_rem_def)
  have f: "of_int \<lfloor>x / 360\<rfloor> \<le> x / 360" "x / 360 < of_int \<lfloor>x / 360\<rfloor> + 1"
    by linarith+
  have c: "x / 360 \<le> of_int \<lceil>x / 360\<rceil>" "of_int \<lceil>x / 360\<rceil> < x / 360 + 1"
    by linarith+
  show "\<bar>js_rem x 360\<bar> < 360"
  proof (cases "0 \<le> x / 360")
    case True
    then have "js_rem x 360 = x - 360 * of_int \<lfloor>x / 360\<rfloor>"
      by (simp add: js_rem_def)
    with f show ?thesis by linarith
  next
    case False
    then have "js_rem x 360 = x - 360 * of_int \<lceil>x / 360\<rceil>"
      by (simp add: js_rem_def)
    with c show ?thesis by linarith
  qed
  show "0 \<le> js_rem x 360" if "0 \<le> x"
  proof -
    from that have "js_rem x 360 = x - 360 * of_int \<lfloor>x / 360\<rfloor>"
      by (simp add: js_rem_def)
    with f show ?thesis by linarith
  qed
qed

lemma renderStar_Drawn_pos:
  assumes "renderStar env s = Drawn c"
  shows "cmd_x c = env_centerX env
           + (fst (getScreenPos s (env_scaleFactor env) (env_time env)
                     (fst (horizontal (env_currentObserver env) s))
                     (snd (horizontal (env_currentObserver env) s))
                     (sourceMode (env_transition env)))
              + (fst (getScreenPos s (env_scaleFactor env) (env_time env)
                        (fst (horizontal (env_currentObserver env) s))
                        (snd (horizontal (env_currentObserver env) s))
                        (targetMode (env_transition env)))
                 - fst (getScreenPos s (env_scaleFactor env) (env_time env)
                          (fst (horizontal (env_currentObserver env) s))
                          (snd (horizontal (env_currentObserver env) s))
                          (sourceMode (env_transition env)))) * env_t env)"
    and "cmd_y c = env_centerY env
           + (snd (getScreenPos s (env_scaleFactor env) (env_time env)
                     (fst (horizontal (env_currentObserver env) s))
                     (snd (horizontal (env_currentObserver env) s))
                     (sourceMode (env_transition env)))
              + (snd (getScreenPos s (env_scaleFactor env) (env_time env)
                        (fst (horizontal (env_currentObserver env) s))
                        (snd (horizontal (env_currentObserver env) s))
                        (targetMode (env_transition env)))
                 - snd (getScreenPos s (env_scaleFactor env) (env_time env)
                          (fst (horizontal (env_currentObserver env) s))
                          (snd (horizontal (env_currentObserver env) s))
                          (sourceMode (env_transition env)))) * env_t env)"
  using assms
  by (auto simp add: renderStar_def Let_def split_def split: if_splits)

lemma renderStar_Culled_iff:
  "renderStar env s = Culled \<longleftrightarrow>
     spectralType s \<in> set (env_activeFilters env)
     \<and> apparentMagnitude s \<le> env_effectiveLimit env
     \<and> progress (env_transition env) \<ge> 1
     \<and> (env_mode env = SKY \<or> env_mode env = CLASSIFICATION)
     \<and> fst (horizontal (env_currentObserver env) s) < - 5"
  by (auto simp add: renderStar_def Let_def split_def)

text \<open>The generator: the fields of a generated star, and where the loop puts it.\<close>

lemma gaussianRandom_snd: "snd (gaussianRandom mean stdev e k) = Suc (Suc k)"
  by (simp add: gaussianRandom_def random_def Let_def split_def)

lemma generateStar_fields:
  fixes e :: Entropy and i k :: nat
  defines "typeData \<equiv> pickType SPECTRAL_WEIGHTS (e k) (last SPECTRAL_WEIGHTS)"
  defines "T \<equiv> e (Suc k) * (maxTemp typeData - minTemp typeData) + minTemp typeData"
  defines "L \<equiv> (T / 5778) ^ 7 * (e (Suc (Suc k)) * (1.5 - 0.5) + 0.5)"
  defines "D \<equiv> 10 powr (e (k + 8) * (3.8 - 0) + 0)"
  shows "spectralType (fst (generateStar e i k)) = sw_type typeData"
    and "temperature (fst (generateStar e i k)) = T"
    and "luminosity (fst (generateStar e i k)) = L"
    and "distance (fst (generateStar e i k)) = D"
    and "hrX (fst (generateStar e i k)) = - ((log 10 T - 3.3) / (4.7 - 3.3) * 2 - 1)"
    and "hrY (fst (generateStar e i k)) = - ((log 10 L - (- 4)) / (6 - (- 4)) * 2 - 1)"
    and "absoluteMagnitude (fst (generateStar e i k)) = - 2.5 * log 10 L + 4.83"
    and "apparentMagnitude (fst (generateStar e i k))
           = (- 2.5 * log 10 L + 4.83) + 5 * (log 10 D - 1)"
    and "snd (generateStar e i k) = k + 9"
  unfolding generateStar_def Let_def split_def random_def randomRange_def
    typeData_def T_def L_def D_def
  by (simp_all only: fst_conv snd_conv Star.simps gaussianRandom_snd)
    (simp_all add: numeral_eq_Suc)

lemma generateStar_hrY:
  "hrY (fst (generateStar e i k))
     = - ((log 10 (luminosity (fst (generateStar e i k))) - (- 4)) / (6 - (- 4)) * 2 - 1)"
  by (simp only: generateStar_fields)

lemma pickType_cases: "pickType ws r d = d \<or> pickType ws r d \<in> set ws"
  by (induction ws arbitrary: r) auto

lemma pickType_table: "pickType SPECTRAL_WEIGHTS r (last SPECTRAL_WEIGHTS) \<in> set SPECTRAL_WEIGHTS"
proof -
  have "last SPECTRAL_WEIGHTS \<in> set SPECTRAL_WEIGHTS"
    by (rule last_in_set) (simp add: SPECTRAL_WEIGHTS_def)
  with pickType_cases [of SPECTRAL_WEIGHTS r "last SPECTRAL_WEIGHTS"] show ?thesis
    by auto
qed

lemma table_temperatures:
  "w \<in> set SPECTRAL_WEIGHTS \<Longrightarrow> 2400 \<le> minTemp w \<and> minTemp w \<le> maxTemp w \<and> maxTemp w \<le> 50000"
  by (auto simp add: SPECTRAL_WEIGHTS_def)

lemma randomRange_bounds:
  fixes r lo hi :: real
  assumes "0 \<le> r" "r < 1" "lo \<le> hi"
  shows "lo \<le> r * (hi - lo) + lo" and "r * (hi - lo) + lo \<le> hi"
proof -
  from assms have a: "0 \<le> r * (hi - lo)" by simp
  then show "lo \<le> r * (hi - lo) + lo" by simp
  from assms have "r * (hi - lo) \<le> 1 * (hi - lo)"
    by (intro mult_right_mono) simp_all
  then show "r * (hi - lo) + lo \<le> hi" by simp
qed

lemma log10_ge:
  fixes x :: real
  assumes "(10::real) ^ p \<le> x ^ q" "0 < x" "0 < q"
  shows "real p / real q \<le> log 10 x"
proof -
  have "real p = log 10 ((10::real) ^ p)"
    by (rule log_pow_cancel [symmetric]) simp_all
  also have "\<dots> \<le> log 10 (x ^ q)"
    using assms by (subst log_le_cancel_iff) simp_all
  also have "\<dots> = real q * log 10 x"
    using assms by (simp add: log_nat_power)
  finally show ?thesis
    using assms by (simp add: field_simps)
qed

lemma log10_le:
  fixes x :: real
  assumes "x ^ q \<le> (10::real) ^ p" "0 < x" "0 < q"
  shows "log 10 x \<le> real p / real q"
proof -
  have "real q * log 10 x = log 10 (x ^ q)"
    using assms by (simp add: log_nat_power)
  also have "\<dots> \<le> log 10 ((10::real) ^ p)"
    using assms by (subst log_le_cancel_iff) simp_all
  also have "\<dots> = real p"
    by (rule log_pow_cancel) simp_all
  finally show ?thesis
    using assms by (simp add: field_simps)
qed

lemma log10_temperature:
  fixes T :: real
  assumes "2400 \<le> T" "T \<le> 50000"
  shows "3.3 \<le> log 10 T" and "log 10 T \<le> 4.7"
proof -
  have "real 33 / real 10 \<le> log 10 (2400::real)"
    by (rule log10_ge) simp_all
  also have "\<dots> \<le> log 10 T"
    using assms by (subst log_le_cancel_iff) simp_all
  finally show "3.3 \<le> log 10 T" by simp
  have "log 10 T \<le> log 10 (50000::real)"
    using assms by (subst log_le_cancel_iff) simp_all
  also have "\<dots> \<le> real 47 / real 10"
    by (rule log10_le) simp_all
  finally show "log 10 T \<le> 4.7" by simp
qed


lemma luminosity_bounds:
  fixes T f :: real
  assumes "2400 \<le> T" "T \<le> 50000" "1 / 2 \<le> f" "f \<le> 3 / 2"
  shows "1 / 10 ^ 4 \<le> (T / 5778) ^ 7 * f" and "(T / 5778) ^ 7 * f \<le> 10 ^ 7"
proof -
  have lo: "(2400 / 5778 :: real) ^ 7 \<le> (T / 5778) ^ 7"
    using assms by (intro power_mono) simp_all
  have hi: "(T / 5778) ^ 7 \<le> (50000 / 5778 :: real) ^ 7"
    using assms by (intro power_mono) simp_all
  have "(1 / 10 ^ 4 :: real) \<le> (2400 / 5778) ^ 7 * (1 / 2)"
    by (simp add: power_divide)
  also have "\<dots> \<le> (T / 5778) ^ 7 * f"
    using lo assms by (intro mult_mono) simp_all
  finally show "1 / 10 ^ 4 \<le> (T / 5778) ^ 7 * f" .
  have "(T / 5778) ^ 7 * f \<le> (50000 / 5778) ^ 7 * (3 / 2)"
    using hi assms by (intro mult_mono) simp_all
  also have "\<dots> \<le> (10 ^ 7 :: real)"
    by (simp add: power_divide)
  finally show "(T / 5778) ^ 7 * f \<le> 10 ^ 7" .
qed

lemma log10_luminosity:
  fixes L :: real
  assumes "1 / 10 ^ 4 \<le> L" "L \<le> 10 ^ 7"
  shows "- 4 \<le> log 10 L" and "log 10 L \<le> 7"
proof -
  from assms have p: "0 < L"
    by (rule_tac less_le_trans [of 0 "1 / 10 ^ 4"]) simp_all
  have "log 10 (1 / 10 ^ 4 :: real) \<le> log 10 L"
    using assms p by (subst log_le_cancel_iff) simp_all
  moreover have "log 10 ((10::real) ^ 4) = real 4"
    by (rule log_pow_cancel) simp_all
  moreover have "log 10 (1 / (10::real) ^ 4) = - log 10 (10 ^ 4)"
    by (rule log_recip)
  ultimately have "- real 4 \<le> log 10 L"
    by (simp only:)
  then show "- 4 \<le> log 10 L" by simp
  have "log 10 L \<le> log 10 ((10::real) ^ 7)"
    using assms p by (subst log_le_cancel_iff) simp_all
  moreover have "log 10 ((10::real) ^ 7) = real 7"
    by (rule log_pow_cancel) simp_all
  ultimately show "log 10 L \<le> 7" by (simp only: of_nat_numeral)
qed

lemma generateStar_bounds:
  assumes "\<forall>k. 0 \<le> e k \<and> e k < 1"
  shows "2400 \<le> temperature (fst (generateStar e i k))
     \<and> temperature (fst (generateStar e i k)) \<le> 50000
     \<and> - 1 \<le> hrX (fst (generateStar e i k)) \<and> hrX (fst (generateStar e i k)) \<le> 1
     \<and> 0 < luminosity (fst (generateStar e i k))
     \<and> 0 < distance (fst (generateStar e i k))
     \<and> - 1.2 \<le> hrY (fst (generateStar e i k)) \<and> hrY (fst (generateStar e i k)) \<le> 1"
proof -
  define w where "w = pickType SPECTRAL_WEIGHTS (e k) (last SPECTRAL_WEIGHTS)"
  define T where "T = e (Suc k) * (maxTemp w - minTemp w) + minTemp w"
  define f where "f = e (Suc (Suc k)) * (1.5 - 0.5) + 0.5"
  define L where "L = (T / 5778) ^ 7 * f"
  have w: "2400 \<le> minTemp w" "minTemp w \<le> maxTemp w" "maxTemp w \<le> 50000"
    using table_temperatures [OF pickType_table, of "e k"] by (simp_all add: w_def)
  from assms have r: "0 \<le> e (Suc k)" "e (Suc k) < 1" "0 \<le> e (Suc (Suc k))" "e (Suc (Suc k)) < 1"
    by simp_all
  from randomRange_bounds [OF r(1,2) w(2)] w
  have T: "2400 \<le> T" "T \<le> 50000" by (simp_all add: T_def)
  from r have f: "1 / 2 \<le> f" "f \<le> 3 / 2" by (simp_all add: f_def)
  from luminosity_bounds [OF T f] have L: "1 / 10 ^ 4 \<le> L" "L \<le> 10 ^ 7"
    by (simp_all add: L_def)
  then have Lpos: "0 < L"
    by (rule_tac less_le_trans [of 0 "1 / 10 ^ 4"]) simp_all
  note lt = log10_temperature [OF T] and ll = log10_luminosity [OF L]
  have fields: "temperature (fst (generateStar e i k)) = T"
    "luminosity (fst (generateStar e i k)) = L"
    "hrX (fst (generateStar e i k)) = - ((log 10 T - 3.3) / (4.7 - 3.3) * 2 - 1)"
    "hrY (fst (generateStar e i k)) = - ((log 10 L - (- 4)) / (6 - (- 4)) * 2 - 1)"
    by (simp_all only: generateStar_fields T_def L_def w_def f_def)
  have d: "0 < distance (fst (generateStar e i k))"
    by (simp only: generateStar_fields) simp
  have x: "- 1 \<le> hrX (fst (generateStar e i k))" "hrX (fst (generateStar e i k)) \<le> 1"
    using lt unfolding fields by simp_all
  have y: "- 1.2 \<le> hrY (fst (generateStar e i k))" "hrY (fst (generateStar e i k)) \<le> 1"
    using ll unfolding fields by (simp_all add: field_simps)
  from T Lpos d x y show ?thesis
    by (simp add: fields(1,2))
qed

lemma generateLoop_acc: "set stars \<subseteq> set (generateLoop e i k stars)"
proof (induction e i k stars rule: generateLoop.induct)
  case (1 e i k stars)
  show ?case
  proof (cases "i < TOTAL_STARS")
    case True
    obtain star k' where g: "generateStar e i k = (star, k')"
      by (cases "generateStar e i k")
    from "1.IH" [OF True g [symmetric]]
    have "set (stars @ [star]) \<subseteq> set (generateLoop e (Suc i) k' (stars @ [star]))" .
    with True g show ?thesis
      by (subst generateLoop.simps) auto
  next
    case False
    then show ?thesis by (subst generateLoop.simps) simp
  qed
qed

lemma generateLoop_first:
  assumes "i < TOTAL_STARS"
  shows "fst (generateStar e i k) \<in> set (generateLoop e i k stars)"
proof -
  obtain star k' where g: "generateStar e i k = (star, k')"
    by (cases "generateStar e i k")
  have "star \<in> set (stars @ [star])" by simp
  with generateLoop_acc [of "stars @ [star]" e "Suc i" k']
  have "star \<in> set (generateLoop e (Suc i) k' (stars @ [star]))" by blast
  with assms g show ?thesis
    by (subst generateLoop.simps) simp
qed

lemma generateLoop_set:
  "set (generateLoop e i k stars)
     \<subseteq> set stars \<union> {fst (generateStar e j k') | j k'. True}"
proof (induction e i k stars rule: generateLoop.induct)
  case (1 e i k stars)
  show ?case
  proof (cases "i < TOTAL_STARS")
    case True
    obtain star k' where g: "generateStar e i k = (star, k')"
      by (cases "generateStar e i k")
    from "1.IH" [OF True g [symmetric]]
    have "set (generateLoop e (Suc i) k' (stars @ [star]))
            \<subseteq> set (stars @ [star]) \<union> {fst (generateStar e j k') | j k'. True}" .
    moreover have "star \<in> {fst (generateStar e j k') | j k'. True}"
    proof -
      have "star = fst (generateStar e i k)" using g by simp
      then show ?thesis by blast
    qed
    moreover have "generateLoop e i k stars = generateLoop e (Suc i) k' (stars @ [star])"
      using True g by (subst generateLoop.simps) simp
    ultimately show ?thesis by auto
  next
    case False
    then show ?thesis by (subst generateLoop.simps) simp
  qed
qed

lemma generateStars_set:
  "s \<in> set (generateStars e) \<Longrightarrow> \<exists>j k'. s = fst (generateStar e j k')"
  using generateLoop_set [of e 0 0 "[]"] by (auto simp add: generateStars_def)

text \<open>The draws \<open>hotDraws\<close> and the first star generated from them.\<close>

lemma hotDraws_range: "0 \<le> hotDraws k \<and> hotDraws k < 1"
  by (simp add: hotDraws_def)

lemma pick_hot: "pickType SPECTRAL_WEIGHTS (1 / 100000) (last SPECTRAL_WEIGHTS)
   = \<lparr>sw_type = Sp_O, weight = 0.00003, minTemp = 30000, maxTemp = 50000\<rparr>"
  by (simp add: SPECTRAL_WEIGHTS_def)

lemma hot_star_fields:
  "spectralType (fst (generateStar hotDraws 0 0)) = Sp_O"
  "temperature (fst (generateStar hotDraws 0 0)) = 48000"
  "luminosity (fst (generateStar hotDraws 0 0)) = (48000 / 5778) ^ 7 * 1.4"
  by (simp_all add: generateStar_fields hotDraws_def pick_hot)

lemma hot_lum: "6 < log 10 ((48000 / 5778) ^ 7 * 1.4 :: real)"
proof -
  have "(10::real) ^ 6 < (48000 / 5778) ^ 7 * 1.4"
    by (simp add: power_divide)
  then have "log 10 ((10::real) ^ 6) < log 10 ((48000 / 5778) ^ 7 * 1.4)"
    by (subst log_less_cancel_iff) simp_all
  moreover have "log 10 ((10::real) ^ 6) = real 6"
    by (rule log_pow_cancel) simp_all
  ultimately show ?thesis by (simp only: of_nat_numeral)
qed

section \<open>The naked-eye scenario\<close>

text \<open>
  C1, as stated, fails on the code. With \<open>observationalPower = 0.05\<close> and
  \<open>lightPollutionLimit = 0.2\<close> the effective limit is \<open>3.6\<close>, but a star of apparent
  magnitude \<open>3.0\<close> lies within the last magnitude below the limit (\<open>3.0 > 3.6 - 1\<close>), so
  its alpha before extinction and horizon factors is \<open>3.6 - 3.0 = 0.6\<close>, not \<open>1\<close>. The
  frame below paints such a star at the zenith (no extinction, no horizon fade) with
  alpha \<open>0.6\<close>.
\<close>

theorem naked_eye_alpha_counterexample:
  "effectiveLimit 0.05 poleObserver = 3.6
   \<and> fadeAlpha (effectiveLimit 0.05 poleObserver) (probeStar 90 3) \<noteq> 1
   \<and> map cmd_globalAlpha
        (frame_painted (render [probeStar 90 3] SKY 0.05 [Sp_G] poleObserver 800 600
                          (initialRefs SKY) 0)) = [0.6]"
  by (simp add: render_def frameEnv_def Let_def transitionMath_def frameDelta_def
      updateLST_def renderStar_def example_defs horizontal_def deg2rad_def limit_defs
      starAlpha_def fadeAlpha_def extinctionFactor_def extinction_def split_def)

text \<open>
  C1, amended: with \<open>observationalPower = 0.05\<close> and \<open>lightPollutionLimit = 0.2\<close> the
  instrument limit is \<open>3.6\<close>, the cap \<open>pollutionLimit + 0.25\<close> is \<open>3.65\<close> and the effective
  limit is \<open>3.6\<close>; a star with an active spectral type and apparent magnitude \<open>3.0\<close>
  passes the global filter and has alpha \<open>0.6\<close> before the extinction and horizon
  factors; a star with apparent magnitude \<open>6.0\<close> is excluded by the global filter.
\<close>

theorem naked_eye_scenario:
  assumes "lightPollutionLimit observer = 0.2"
    and "env_effectiveLimit env = effectiveLimit 0.05 observer"
  shows "instrumentLimit 0.05 = 3.6
     \<and> pollutionLimit observer + 0.05 * 5 = 3.65
     \<and> effectiveLimit 0.05 observer = 3.6
     \<and> (spectralType s \<in> set (env_activeFilters env) \<and> apparentMagnitude s = 3
          \<longrightarrow> renderStar env s \<noteq> Filtered
              \<and> fadeAlpha (env_effectiveLimit env) s = 0.6)
     \<and> (apparentMagnitude s = 6 \<longrightarrow> renderStar env s = Filtered)"
  using assms
  by (auto simp add: limit_defs renderStar_def fadeAlpha_def Let_def split_def)

text \<open>The amended C1 at the pole observer, for stars of magnitude 3 and 6 at the zenith.\<close>

theorem naked_eye_scenario_witness:
  "lightPollutionLimit poleObserver = 0.2
   \<and> env_effectiveLimit (frameEnv SKY 0.05 [Sp_G] poleObserver 800 600 (initialRefs SKY) 0)
       = effectiveLimit 0.05 poleObserver
   \<and> spectralType (probeStar 90 3) \<in> set [Sp_G]
   \<and> apparentMagnitude (probeStar 90 3) = 3
   \<and> renderStar (frameEnv SKY 0.05 [Sp_G] poleObserver 800 600 (initialRefs SKY) 0)
         (probeStar 90 3) \<noteq> Filtered
   \<and> fadeAlpha (effectiveLimit 0.05 poleObserver) (probeStar 90 3) = 0.6
   \<and> apparentMagnitude (probeStar 90 6) = 6
   \<and> renderStar (frameEnv SKY 0.05 [Sp_G] poleObserver 800 600 (initialRefs SKY) 0)
         (probeStar 90 6) = Filtered"
proof -
  let ?env = "frameEnv SKY 0.05 [Sp_G] poleObserver 800 600 (initialRefs SKY) 0"
  have h1: "lightPollutionLimit poleObserver = 0.2"
    by (simp add: example_defs)
  have h2: "env_effectiveLimit ?env = effectiveLimit 0.05 poleObserver"
    by (simp add: frameEnv_def Let_def split_def)
  have f: "env_activeFilters ?env = [Sp_G]"
    by (simp add: frameEnv_def Let_def split_def)
  have s3: "spectralType (probeStar 90 3) \<in> set [Sp_G]" "apparentMagnitude (probeStar 90 3) = 3"
    and s6: "apparentMagnitude (probeStar 90 6) = 6"
    by (simp_all add: probeStar_def)
  from naked_eye_scenario [OF h1 h2, of "probeStar 90 3"] s3 f h2
  have a: "renderStar ?env (probeStar 90 3) \<noteq> Filtered"
    "fadeAlpha (effectiveLimit 0.05 poleObserver) (probeStar 90 3) = 0.6"
    by simp_all
  from naked_eye_scenario [OF h1 h2, of "probeStar 90 6"] s6
  have b: "renderStar ?env (probeStar 90 6) = Filtered"
    by simp
  from h1 h2 s3 s6 a b show ?thesis by simp
qed

section \<open>Range of the HR coordinates\<close>

text \<open>
  C2 does not hold of the code for \<open>hrY\<close>: the luminosity of a hot O star exceeds
  \<open>10^6\<close>, the upper end of the range that is mapped to \<open>[-1, 1]\<close>. With the draws
  \<open>hotDraws\<close>, which are all in \<open>[0, 1)\<close>, the first star of the catalogue has class O,
  temperature 48000 K and luminosity \<open>(48000 / 5778)^7 * 1.4\<close>, about \<open>3.8 * 10^6\<close>, and
  its stored \<open>hrY\<close> is below \<open>-1\<close>.
\<close>

theorem hot_star_outside_hr_range:
  "(\<forall>k. 0 \<le> hotDraws k \<and> hotDraws k < 1)
   \<and> fst (generateStar hotDraws 0 0) \<in> set (generateStars hotDraws)
   \<and> spectralType (fst (generateStar hotDraws 0 0)) = Sp_O
   \<and> temperature (fst (generateStar hotDraws 0 0)) = 48000
   \<and> luminosity (fst (generateStar hotDraws 0 0)) = (48000 / 5778) ^ 7 * 1.4
   \<and> hrY (fst (generateStar hotDraws 0 0)) < - 1"
proof -
  have "fst (generateStar hotDraws 0 0) \<in> set (generateStars hotDraws)"
    by (simp add: generateStars_def generateLoop_first TOTAL_STARS_def)
  moreover have "hrY (fst (generateStar hotDraws 0 0)) < - 1"
    using hot_lum by (simp add: generateStar_hrY hot_star_fields)
  ultimately show ?thesis
    by (simp add: hotDraws_range hot_star_fields)
qed

text \<open>
  What does hold of every star of the catalogue, whatever the draws in \<open>[0, 1)\<close>: the
  temperature is between 2400 and 50000, \<open>hrX\<close> is in \<open>[-1, 1]\<close>, the luminosity and the
  distance are positive (so the logarithms in the magnitudes are taken of positive
  numbers), and \<open>hrY\<close> is in \<open>[-1.2, 1]\<close>.
\<close>

lemma generated_star_bounds:
  assumes "\<forall>k. 0 \<le> e k \<and> e k < 1" and "s \<in> set (generateStars e)"
  shows "2400 \<le> temperature s \<and> temperature s \<le> 50000
     \<and> - 1 \<le> hrX s \<and> hrX s \<le> 1
     \<and> 0 < luminosity s \<and> 0 < distance s
     \<and> - 1.2 \<le> hrY s \<and> hrY s \<le> 1"
proof -
  from generateStars_set [OF assms(2)] obtain j k' where "s = fst (generateStar e j k')"
    by blast
  with generateStar_bounds [OF assms(1), of j k'] show ?thesis
    by simp
qed

section \<open>Atmospheric extinction\<close>

text \<open>
  C3, as stated, fails on the code when the source mode of the transition is
  Classification: the blend is applied only when \<open>sourceMode\<close> is Sky. A component in
  Classification mode is asked for the Galaxy at time 0; on the frame at 750 ms the eased
  progress is \<open>7/8\<close>, and for a star on the horizon (altitude 0, extinction factor
  \<open>0.3\<close> in Sky) the factor is 1, not the blend \<open>0.3 + 0.7 * 7/8\<close>.
\<close>

theorem extinction_blend_counterexample:
  "sourceMode (fst (transitionMath (requestMode GALAXY 0 (initialTransition CLASSIFICATION)) 750))
     = CLASSIFICATION
   \<and> snd (transitionMath (requestMode GALAXY 0 (initialTransition CLASSIFICATION)) 750) = 7 / 8
   \<and> extinctionFactor GALAXY
        (fst (transitionMath (requestMode GALAXY 0 (initialTransition CLASSIFICATION)) 750))
        (snd (transitionMath (requestMode GALAXY 0 (initialTransition CLASSIFICATION)) 750)) 0
       = 1
   \<and> extinctionFactor GALAXY
        (fst (transitionMath (requestMode GALAXY 0 (initialTransition CLASSIFICATION)) 750))
        (snd (transitionMath (requestMode GALAXY 0 (initialTransition CLASSIFICATION)) 750)) 0
       \<noteq> (1 - 0.7 * max 0 ((30 - 0) / 30))
           + (1 - (1 - 0.7 * max 0 ((30 - 0) / 30))) * (7 / 8)"
  by (simp add: transitionMath_def requestMode_def initialTransition_def Let_def
      extinctionFactor_def power3_eq_cube)

text \<open>
  C3, amended: the alpha of a star is the magnitude fade times the extinction factor
  (times the horizon fade where that applies). While Sky or Classification is the active
  mode, the extinction factor is \<open>1 - 0.7 * max 0 ((30 - altDeg) / 30)\<close>. While the
  active mode is neither and the source mode of the transition is Sky, the factor is that
  value blended towards 1 by the transition progress,
  \<open>skyExtinction + (1 - skyExtinction) * t\<close>, where \<open>t\<close> is the progress stored by the
  frame.
\<close>

theorem extinction_factor_blend:
  fixes mode :: AppMode and altDeg :: real
  defines "skyExtinction \<equiv> 1 - 0.7 * max 0 ((30 - altDeg) / 30)"
  shows "starAlpha mode effLimit tr t altDeg s
           = fadeAlpha effLimit s * extinctionFactor mode tr t altDeg
               * (if altDeg < 0 \<and> (mode = SKY \<or> targetMode tr = SKY)
                  then max 0 (1 + altDeg / 5) else 1)
     \<and> (mode = SKY \<or> mode = CLASSIFICATION
          \<longrightarrow> extinctionFactor mode tr t altDeg = skyExtinction)
     \<and> (mode \<noteq> SKY \<and> mode \<noteq> CLASSIFICATION \<and> sourceMode tr = SKY
          \<longrightarrow> extinctionFactor mode tr t altDeg = skyExtinction + (1 - skyExtinction) * t)
     \<and> (renderStar env s = Drawn c
          \<longrightarrow> cmd_globalAlpha c
                = starAlpha (env_mode env) (env_effectiveLimit env) (env_transition env)
                    (env_t env) (fst (horizontal (env_currentObserver env) s)) s)
     \<and> env_t (frameEnv mode observationalPower activeFilters observer width height refs time)
         = progress (env_transition
                       (frameEnv mode observationalPower activeFilters observer
                          width height refs time))"
proof -
  have e: "extinction altDeg = max 0 ((30 - altDeg) / 30)"
    by (simp add: extinction_def max_def)
  have a: "starAlpha mode effLimit tr t altDeg s
           = fadeAlpha effLimit s * extinctionFactor mode tr t altDeg
               * (if altDeg < 0 \<and> (mode = SKY \<or> targetMode tr = SKY)
                  then max 0 (1 + altDeg / 5) else 1)"
    by (auto simp add: starAlpha_def Let_def)
  have b: "extinctionFactor mode tr t altDeg = skyExtinction"
    if "mode = SKY \<or> mode = CLASSIFICATION"
    using that by (auto simp add: extinctionFactor_def e skyExtinction_def)
  have c: "extinctionFactor mode tr t altDeg = skyExtinction + (1 - skyExtinction) * t"
    if "mode \<noteq> SKY \<and> mode \<noteq> CLASSIFICATION \<and> sourceMode tr = SKY"
    using that by (simp add: extinctionFactor_def e skyExtinction_def Let_def)
  have d: "cmd_globalAlpha c
                = starAlpha (env_mode env) (env_effectiveLimit env) (env_transition env)
                    (env_t env) (fst (horizontal (env_currentObserver env) s)) s"
    if "renderStar env s = Drawn c"
    using that by (rule renderStar_Drawn_alpha(1))
  from a b c d show ?thesis
    by (simp add: frameEnv_simps transitionMath_snd)
qed

text \<open>
  The amended C3 at altitude 0: in Sky mode the factor is \<open>0.3\<close>; on the way from Sky to
  the Galaxy, at eased progress \<open>7/8\<close>, it is \<open>0.3 + 0.7 * 7/8 = 0.9125\<close>.
\<close>

theorem extinction_factor_blend_witness:
  "extinctionFactor SKY (initialTransition SKY) 1 0 = 0.3
   \<and> GALAXY \<noteq> SKY \<and> GALAXY \<noteq> CLASSIFICATION
   \<and> sourceMode (fst (transitionMath (requestMode GALAXY 0 (initialTransition SKY)) 750)) = SKY
   \<and> extinctionFactor GALAXY
        (fst (transitionMath (requestMode GALAXY 0 (initialTransition SKY)) 750)) (7 / 8) 0
       = 0.9125"
  using extinction_factor_blend [where mode = SKY and altDeg = 0
      and tr = "initialTransition SKY" and t = 1]
    extinction_factor_blend [where mode = GALAXY and altDeg = 0
      and tr = "fst (transitionMath (requestMode GALAXY 0 (initialTransition SKY)) 750)"
      and t = "7 / 8"]
  by (simp add: transitionMath_modes requestMode_def initialTransition_def Let_def)

section \<open>Exclusion and the visible count\<close>

text \<open>
  C4: a star whose spectral type is not among the active filters, or whose apparent
  magnitude is strictly greater than the effective limit, leaves the callback at the
  global filter checks, before anything is projected; a star whose final alpha is not
  positive is not painted. The circles painted in a frame are exactly those of the stars
  whose outcome is \<open>Drawn\<close>, and the count reported through \<open>setStats\<close> is their number,
  so neither kind of star is painted or counted.
\<close>

theorem exclusion_and_visible_count:
  fixes stars :: "Star list" and mode :: AppMode and observationalPower :: real
    and activeFilters :: "SpectralType list" and observer :: ObserverState
    and width height time :: real and refs :: Refs
  defines "env \<equiv> frameEnv mode observationalPower activeFilters observer width height refs time"
    and "frame \<equiv> render stars mode observationalPower activeFilters observer
                     width height refs time"
  shows "(spectralType s \<notin> set activeFilters
            \<or> apparentMagnitude s > effectiveLimit observationalPower observer
          \<longrightarrow> renderStar env s = Filtered)
     \<and> (starAlpha mode (effectiveLimit observationalPower observer) (env_transition env)
           (env_t env) (fst (horizontal observer s)) s \<le> 0
          \<longrightarrow> \<not> is_Drawn (renderStar env s))
     \<and> (renderStar env s = Drawn c \<longrightarrow> 0 < cmd_globalAlpha c)
     \<and> frame_painted frame
         = map (\<lambda>s. the_cmd (renderStar env s)) (filter (\<lambda>s. is_Drawn (renderStar env s)) stars)
     \<and> frame_setStats frame = length (filter (\<lambda>s. is_Drawn (renderStar env s)) stars)
     \<and> frame_setStats frame = length (frame_painted frame)"
proof -
  have "renderStar env s = Filtered"
    if "spectralType s \<notin> set activeFilters
          \<or> apparentMagnitude s > effectiveLimit observationalPower observer"
    using that by (auto simp add: renderStar_def env_def frameEnv_simps)
  moreover have "\<not> is_Drawn (renderStar env s)"
    if "starAlpha mode (effectiveLimit observationalPower observer) (env_transition env)
           (env_t env) (fst (horizontal observer s)) s \<le> 0"
    using that
    by (auto simp add: renderStar_def env_def frameEnv_simps Let_def split_def)
  moreover have "0 < cmd_globalAlpha c" if "renderStar env s = Drawn c"
    using that by (rule renderStar_Drawn_alpha(2))
  ultimately show ?thesis
    by (simp add: frame_def env_def render_simps)
qed

text \<open>
  C4 on a Sky frame of the pole observer with naked-eye power (effective limit 3.6) and
  only class G active, for four stars at the zenith: one of magnitude 3, one of
  magnitude 6 (too faint), one of class M (filtered), and one of magnitude 3.6, whose
  alpha is 0. Only the first is painted and counted.
\<close>

theorem exclusion_and_visible_count_witness:
  "apparentMagnitude (probeStar 90 6) > effectiveLimit 0.05 poleObserver
   \<and> renderStar (frameEnv SKY 0.05 [Sp_G] poleObserver 800 600 (initialRefs SKY) 0)
        (probeStar 90 6) = Filtered
   \<and> spectralType ((probeStar 90 3)\<lparr>spectralType := Sp_M\<rparr>) \<notin> set [Sp_G]
   \<and> renderStar (frameEnv SKY 0.05 [Sp_G] poleObserver 800 600 (initialRefs SKY) 0)
        ((probeStar 90 3)\<lparr>spectralType := Sp_M\<rparr>) = Filtered
   \<and> starAlpha SKY (effectiveLimit 0.05 poleObserver)
        (env_transition (frameEnv SKY 0.05 [Sp_G] poleObserver 800 600 (initialRefs SKY) 0))
        (env_t (frameEnv SKY 0.05 [Sp_G] poleObserver 800 600 (initialRefs SKY) 0))
        (fst (horizontal poleObserver (probeStar 90 3.6))) (probeStar 90 3.6) \<le> 0
   \<and> \<not> is_Drawn (renderStar (frameEnv SKY 0.05 [Sp_G] poleObserver 800 600 (initialRefs SKY) 0)
                     (probeStar 90 3.6))
   \<and> frame_setStats
        (render [probeStar 90 3, probeStar 90 6, (probeStar 90 3)\<lparr>spectralType := Sp_M\<rparr>,
                 probeStar 90 3.6]
           SKY 0.05 [Sp_G] poleObserver 800 600 (initialRefs SKY) 0) = 1"
proof -
  let ?env = "frameEnv SKY 0.05 [Sp_G] poleObserver 800 600 (initialRefs SKY) 0"
  let ?m = "(probeStar 90 3)\<lparr>spectralType := Sp_M\<rparr>"
  let ?stars = "[probeStar 90 3, probeStar 90 6, ?m, probeStar 90 3.6]"
  note inst = exclusion_and_visible_count [where stars = ?stars and mode = SKY
      and observationalPower = "0.05" and activeFilters = "[Sp_G]" and observer = poleObserver
      and width = 800 and height = 600 and refs = "initialRefs SKY" and time = 0]
  have lim: "effectiveLimit (1 / 20) poleObserver = 18 / 5"
    by (simp add: limit_defs poleObserver_simps)
  have alt: "fst (horizontal poleObserver (probeStar 90 m)) = 90" for m
    by (rule horizontal_pole_zenith) (simp_all add: probeStar_simps poleObserver_simps)
  have h6: "apparentMagnitude (probeStar 90 6) > effectiveLimit 0.05 poleObserver"
    by (simp add: lim probeStar_simps)
  have hm: "spectralType ?m \<notin> set [Sp_G]"
    by simp
  have ha: "starAlpha SKY (effectiveLimit 0.05 poleObserver) (env_transition ?env) (env_t ?env)
              (fst (horizontal poleObserver (probeStar 90 3.6))) (probeStar 90 3.6) \<le> 0"
    by (simp add: lim alt starAlpha_def fadeAlpha_def probeStar_simps)
  from inst [where s = "probeStar 90 6"] h6
  have c6: "renderStar ?env (probeStar 90 6) = Filtered" by simp
  from inst [where s = ?m] hm
  have cm: "renderStar ?env ?m = Filtered" by simp
  from inst [where s = "probeStar 90 3.6"] ha
  have ca: "\<not> is_Drawn (renderStar ?env (probeStar 90 3.6))" by simp
  have c3: "is_Drawn (renderStar ?env (probeStar 90 3))"
    by (simp add: renderStar_def frameEnv_simps lim alt split_def Let_def probeStar_simps
        starAlpha_def fadeAlpha_def extinctionFactor_def extinction_def)
  from inst [where s = "probeStar 90 3"] c3 c6 cm ca
  have n: "frame_setStats (render ?stars SKY 0.05 [Sp_G] poleObserver 800 600
                             (initialRefs SKY) 0) = 1"
    by simp
  from h6 c6 hm cm ha ca n show ?thesis by simp
qed

section \<open>Mode requests\<close>

text \<open>
  C5: after any sequence \<open>reqs\<close> of mode requests, requesting the mode that is the current
  \<open>targetMode\<close> leaves the whole transition state unchanged; requesting a different mode
  \<open>m\<close> at time \<open>now\<close> (whatever the current \<open>progress\<close>) makes the previous target the
  source, \<open>m\<close> the target, \<open>progress\<close> 0 and \<open>startTime\<close> \<open>now\<close>.
\<close>

theorem requestMode_effect:
  "(m = targetMode (requestModes reqs tr0)
      \<longrightarrow> requestModes (reqs @ [(m, now)]) tr0 = requestModes reqs tr0)
   \<and> (m \<noteq> targetMode (requestModes reqs tr0)
      \<longrightarrow> sourceMode (requestModes (reqs @ [(m, now)]) tr0) = targetMode (requestModes reqs tr0)
        \<and> targetMode (requestModes (reqs @ [(m, now)]) tr0) = m
        \<and> progress (requestModes (reqs @ [(m, now)]) tr0) = 0
        \<and> startTime (requestModes (reqs @ [(m, now)]) tr0) = now)"
  by (simp add: requestModes_append requestMode_def Let_def)

text \<open>
  C5 on a component mounted in Sky mode: Galaxy is requested at time 100; then Galaxy
  again, or the HR diagram, at time 200, while the first transition is under way.
\<close>

theorem requestMode_effect_witness:
  "GALAXY = targetMode (requestModes [(GALAXY, 100)] (initialTransition SKY))
   \<and> requestModes ([(GALAXY, 100)] @ [(GALAXY, 200)]) (initialTransition SKY)
       = requestModes [(GALAXY, 100)] (initialTransition SKY)
   \<and> HR_DIAGRAM \<noteq> targetMode (requestModes [(GALAXY, 100)] (initialTransition SKY))
   \<and> sourceMode (requestModes ([(GALAXY, 100)] @ [(HR_DIAGRAM, 200)]) (initialTransition SKY)) = GALAXY
   \<and> targetMode (requestModes ([(GALAXY, 100)] @ [(HR_DIAGRAM, 200)]) (initialTransition SKY)) = HR_DIAGRAM
   \<and> progress (requestModes ([(GALAXY, 100)] @ [(HR_DIAGRAM, 200)]) (initialTransition SKY)) = 0
   \<and> startTime (requestModes ([(GALAXY, 100)] @ [(HR_DIAGRAM, 200)]) (initialTransition SKY)) = 200"
  using requestMode_effect [of GALAXY "[(GALAXY, 100)]" "initialTransition SKY" 200]
    requestMode_effect [of HR_DIAGRAM "[(GALAXY, 100)]" "initialTransition SKY" 200]
  by (simp add: requestMode_def initialTransition_def)

section \<open>Sidereal time\<close>

text \<open>
  C6: in a frame, \<open>setObserver\<close> is called exactly when the observer is not paused and
  the mode is Sky, with the current observer in which \<open>localSiderealTime\<close> is replaced
  by the remainder modulo 360 of \<open>localSiderealTime + deltaMs * 0.01 * timeSpeed\<close>, where
  \<open>deltaMs\<close> is the frame time minus the time held in \<open>lastTimeRef\<close> (0 on the first
  frame, when \<open>lastTimeRef\<close> is 0). Every frame stores its time in \<open>lastTimeRef\<close>, so
  \<open>deltaMs\<close> is the time since the previous frame. When the observer is paused or the
  mode is not Sky the observer is left as it is. In both cases every field other than
  \<open>localSiderealTime\<close> keeps its value. The remainder is that of JavaScript: it differs
  from the advanced time by a multiple of 360, is smaller than 360 in absolute value, and
  is not negative when the advanced time is not negative.
\<close>

theorem sidereal_time_update:
  fixes stars :: "Star list" and mode :: AppMode and observationalPower :: real
    and activeFilters :: "SpectralType list" and observer :: ObserverState
    and width height time :: real and refs :: Refs
  defines "frame \<equiv> render stars mode observationalPower activeFilters observer
                     width height refs time"
    and "after \<equiv> observerAfter stars mode observationalPower activeFilters observer
                     width height refs time"
    and "deltaMs \<equiv> (if lastTimeRef refs = 0 then 0 else time - lastTimeRef refs)"
  defines "advanced \<equiv> localSiderealTime observer + deltaMs * 0.01 * timeSpeed observer"
  shows "(\<not> isPaused observer \<and> mode = SKY
          \<longrightarrow> frame_setObserver frame
                = Some (observer\<lparr>localSiderealTime := js_rem advanced 360\<rparr>)
            \<and> localSiderealTime after = js_rem advanced 360)
     \<and> (isPaused observer \<or> mode \<noteq> SKY
          \<longrightarrow> frame_setObserver frame = None \<and> after = observer)
     \<and> latitude after = latitude observer
     \<and> lightPollutionLimit after = lightPollutionLimit observer
     \<and> isPaused after = isPaused observer
     \<and> timeSpeed after = timeSpeed observer
     \<and> (\<exists>k::int. js_rem advanced 360 = advanced - 360 * of_int k)
     \<and> \<bar>js_rem advanced 360\<bar> < 360
     \<and> (0 \<le> advanced \<longrightarrow> 0 \<le> js_rem advanced 360)
     \<and> lastTimeRef (frame_refs frame) = time"
proof -
  have d: "snd (frameDelta (lastTimeRef refs) time) = deltaMs"
    by (simp add: frameDelta_def deltaMs_def Let_def)
  have l: "lastTimeRef (frame_refs frame) = time"
    by (simp add: frame_def render_simps frameDelta_def Let_def)
  have s: "frame_setObserver frame
             = (if \<not> isPaused observer \<and> mode = SKY
                then Some (observer\<lparr>localSiderealTime := js_rem advanced 360\<rparr>) else None)"
    by (simp add: frame_def render_simps d updateLST_def advanced_def Let_def)
  have a: "after = (if \<not> isPaused observer \<and> mode = SKY
                    then observer\<lparr>localSiderealTime := js_rem advanced 360\<rparr> else observer)"
    using s by (simp add: after_def observerAfter_def frame_def)
  from s a l js_rem_360 [of advanced] show ?thesis
    by simp
qed

text \<open>
  C6 for the default observer (not paused, speed 1, sidereal time 0) on a freshly mounted
  component in Sky mode: the first frame, at 100 ms, stores 100 in \<open>lastTimeRef\<close> and
  writes the sidereal time 0; the next frame, at 1100 ms, run on the refs the first frame
  left, advances the sidereal time to \<open>1000 * 0.01 * 1 = 10\<close> and stores 1100. In Galaxy
  mode, and for the paused observer in Sky mode, nothing is written.
\<close>

theorem sidereal_time_update_witness:
  "\<not> isPaused defaultObserver
   \<and> lastTimeRef (frame_refs
        (render [] SKY 0.05 [Sp_G] defaultObserver 800 600 (initialRefs SKY) 100)) = 100
   \<and> frame_setObserver
        (render [] SKY 0.05 [Sp_G] defaultObserver 800 600 (initialRefs SKY) 100)
       = Some (defaultObserver\<lparr>localSiderealTime := 0\<rparr>)
   \<and> frame_setObserver
        (render [] SKY 0.05 [Sp_G] defaultObserver 800 600
           (frame_refs (render [] SKY 0.05 [Sp_G] defaultObserver 800 600 (initialRefs SKY) 100))
           1100)
       = Some (defaultObserver\<lparr>localSiderealTime := 10\<rparr>)
   \<and> lastTimeRef (frame_refs
        (render [] SKY 0.05 [Sp_G] defaultObserver 800 600
           (frame_refs (render [] SKY 0.05 [Sp_G] defaultObserver 800 600 (initialRefs SKY) 100))
           1100)) = 1100
   \<and> GALAXY \<noteq> SKY
   \<and> frame_setObserver
        (render [] GALAXY 0.05 [Sp_G] defaultObserver 800 600
           \<lparr>transitionRef = initialTransition GALAXY, lastTimeRef = 100\<rparr> 1100)
       = None
   \<and> isPaused (defaultObserver\<lparr>isPaused := True\<rparr>)
   \<and> observerAfter [] SKY 0.05 [Sp_G] (defaultObserver\<lparr>isPaused := True\<rparr>) 800 600
        \<lparr>transitionRef = initialTransition SKY, lastTimeRef = 100\<rparr> 1100
       = defaultObserver\<lparr>isPaused := True\<rparr>"
proof -
  let ?f1 = "render [] SKY 0.05 [Sp_G] defaultObserver 800 600 (initialRefs SKY) 100"
  have r0: "js_rem 0 360 = 0" and r10: "js_rem 10 360 = 10"
    by (simp_all add: js_rem_def)
  have o: "\<not> isPaused defaultObserver" "localSiderealTime defaultObserver = 0"
    "timeSpeed defaultObserver = 1"
    by (simp_all add: defaultObserver_def)
  have i: "lastTimeRef (initialRefs SKY) = 0"
    by (simp add: initialRefs_def)
  note first = sidereal_time_update [where stars = "[]" and mode = SKY
      and observationalPower = "0.05" and activeFilters = "[Sp_G]"
      and observer = defaultObserver and width = 800 and height = 600 and time = 100
      and refs = "initialRefs SKY"]
  from first have l1: "lastTimeRef (frame_refs ?f1) = 100"
    by simp
  then have l1n: "lastTimeRef (frame_refs
        (render [] SKY (1 / 20) [Sp_G] defaultObserver 800 600 (initialRefs SKY) 100)) = 100"
    by simp
  from first have a1: "frame_setObserver ?f1 = Some (defaultObserver\<lparr>localSiderealTime := 0\<rparr>)"
    by (simp add: o i r0)
  note second = sidereal_time_update [where stars = "[]" and mode = SKY
      and observationalPower = "0.05" and activeFilters = "[Sp_G]"
      and observer = defaultObserver and width = 800 and height = 600 and time = 1100
      and refs = "frame_refs ?f1"]
  from second have a2: "frame_setObserver
        (render [] SKY 0.05 [Sp_G] defaultObserver 800 600 (frame_refs ?f1) 1100)
       = Some (defaultObserver\<lparr>localSiderealTime := 10\<rparr>)"
    by (simp add: o l1n r10)
  from second have l2: "lastTimeRef (frame_refs
        (render [] SKY 0.05 [Sp_G] defaultObserver 800 600 (frame_refs ?f1) 1100)) = 1100"
    by simp
  from sidereal_time_update [where stars = "[]" and mode = GALAXY
      and observationalPower = "0.05"
      and activeFilters = "[Sp_G]" and observer = defaultObserver and width = 800
      and height = 600 and time = 1100
      and refs = "\<lparr>transitionRef = initialTransition GALAXY, lastTimeRef = 100\<rparr>"]
  have b: "frame_setObserver
        (render [] GALAXY 0.05 [Sp_G] defaultObserver 800 600
           \<lparr>transitionRef = initialTransition GALAXY, lastTimeRef = 100\<rparr> 1100)
       = None"
    by simp
  from sidereal_time_update [where stars = "[]" and mode = SKY and observationalPower = "0.05"
      and activeFilters = "[Sp_G]" and observer = "defaultObserver\<lparr>isPaused := True\<rparr>"
      and width = 800 and height = 600 and time = 1100
      and refs = "\<lparr>transitionRef = initialTransition SKY, lastTimeRef = 100\<rparr>"]
  have c: "observerAfter [] SKY 0.05 [Sp_G] (defaultObserver\<lparr>isPaused := True\<rparr>) 800 600
        \<lparr>transitionRef = initialTransition SKY, lastTimeRef = 100\<rparr> 1100
       = defaultObserver\<lparr>isPaused := True\<rparr>"
    by simp
  from o(1) l1 a1 a2 l2 b c show ?thesis
    by simp
qed

section \<open>Easing and interpolation\<close>

text \<open>
  C7: while a transition is in progress, the progress stored by a frame should be the
  ease-out cubic \<open>1 - (1 - t)^3\<close> of the time fraction clamped to \<open>[0, 1]\<close>. The code
  caps the fraction at 1 but does not clamp it at 0, so it misses the case of a frame
  whose time stamp precedes \<open>startTime\<close>. A transition away from Sky is requested at
  \<open>performance.now() = 1016\<close> and the next frame carries the time stamp 1000: the stored
  progress is \<open>1 - (1 + 16/1500)^3\<close>, which is negative, not the eased value 0 of the
  clamped fraction. The frame uses it as an opacity: towards the Galaxy the horizon ring
  is drawn with opacity \<open>(1 + 16/1500)^3\<close>, above 1, and towards the HR diagram the axes
  are drawn with a negative opacity.
\<close>

theorem early_frame_negative_progress:
  "progress (requestMode GALAXY 1016 (initialTransition SKY)) < 1
   \<and> progress (transitionRef (frame_refs
        (render [] GALAXY 0.05 [Sp_G] defaultObserver 800 600
           \<lparr>transitionRef = requestMode GALAXY 1016 (initialTransition SKY),
            lastTimeRef = 984\<rparr> 1000)))
       = 1 - (1 + 16 / 1500) ^ 3
   \<and> progress (transitionRef (frame_refs
        (render [] GALAXY 0.05 [Sp_G] defaultObserver 800 600
           \<lparr>transitionRef = requestMode GALAXY 1016 (initialTransition SKY),
            lastTimeRef = 984\<rparr> 1000)))
       < 0
   \<and> 1 - (1 - max 0 (min ((1000 - 1016) / 1500) 1)) ^ 3 = (0::real)
   \<and> frame_horizon
        (render [] GALAXY 0.05 [Sp_G] defaultObserver 800 600
           \<lparr>transitionRef = requestMode GALAXY 1016 (initialTransition SKY),
            lastTimeRef = 984\<rparr> 1000)
       = Some ((1 + 16 / 1500) ^ 3)
   \<and> (1::real) < (1 + 16 / 1500) ^ 3
   \<and> frame_axes
        (render [] HR_DIAGRAM 0.05 [Sp_G] defaultObserver 800 600
           \<lparr>transitionRef = requestMode HR_DIAGRAM 1016 (initialTransition SKY),
            lastTimeRef = 984\<rparr> 1000)
       = Some (1 - (1 + 16 / 1500) ^ 3)
   \<and> 1 - (1 + 16 / 1500) ^ 3 < (0::real)"
proof -
  have t: "transitionMath (requestMode m 1016 (initialTransition SKY)) 1000
             = ((requestMode m 1016 (initialTransition SKY))
                   \<lparr>progress := 1 - (1 + 16 / 1500) ^ 3\<rparr>,
                1 - (1 + 16 / 1500) ^ 3)" if "m \<noteq> SKY" for m
    using that
    by (simp add: transitionMath_def requestMode_def initialTransition_def Let_def)
  have n: "1 - (1 + 16 / 1500) ^ 3 < (0::real)" "(1::real) < (1 + 16 / 1500) ^ 3"
    by (simp_all add: power3_eq_cube)
  have p: "progress (requestMode GALAXY 1016 (initialTransition SKY)) < 1"
    by (simp add: requestMode_def initialTransition_def)
  have s: "sourceMode (requestMode m 1016 (initialTransition SKY)) = SKY" for m
    by (simp add: requestMode_def initialTransition_def Let_def)
  have g: "progress (transitionRef (frame_refs
        (render [] GALAXY 0.05 [Sp_G] defaultObserver 800 600
           \<lparr>transitionRef = requestMode GALAXY 1016 (initialTransition SKY),
            lastTimeRef = 984\<rparr> 1000)))
       = 1 - (1 + 16 / 1500) ^ 3"
    by (simp add: render_simps t)
  have h: "frame_horizon
        (render [] GALAXY 0.05 [Sp_G] defaultObserver 800 600
           \<lparr>transitionRef = requestMode GALAXY 1016 (initialTransition SKY),
            lastTimeRef = 984\<rparr> 1000)
       = Some ((1 + 16 / 1500) ^ 3)"
    by (simp add: render_def Let_def split_def t s)
  have x: "frame_axes
        (render [] HR_DIAGRAM 0.05 [Sp_G] defaultObserver 800 600
           \<lparr>transitionRef = requestMode HR_DIAGRAM 1016 (initialTransition SKY),
            lastTimeRef = 984\<rparr> 1000)
       = Some (1 - (1 + 16 / 1500) ^ 3)"
    by (simp add: render_def Let_def split_def t)
  have c: "1 - (1 - max 0 (min ((1000 - 1016) / 1500) 1)) ^ 3 = (0::real)"
    by simp
  from p g n h x c show ?thesis
    by (simp only: simp_thms)
qed

text \<open>
  What the frame does compute on every reachable state in which a transition is in
  progress (stored progress below 1): the progress it stores is the ease-out cubic
  \<open>1 - (1 - t)^3\<close> of \<open>t = min ((now - startTime) / 1500) 1\<close>, which is the cubic of the
  clamped fraction on every frame whose time is not before \<open>startTime\<close>; the frame leaves
  the modes, \<open>startTime\<close> and \<open>duration\<close> of the transition as they are; and the offset
  from the canvas centre of a painted star is the linear blend
  \<open>sourcePos + (targetPos - sourcePos) * progress\<close> of its positions in the source and
  the target projection, with that stored progress.
\<close>

lemma easing_and_blend:
  fixes stars :: "Star list" and mode :: AppMode and observationalPower :: real
    and activeFilters :: "SpectralType list" and observer :: ObserverState
    and width height time :: real and refs :: Refs and s :: Star
  assumes "reachable (transitionRef refs)" and "progress (transitionRef refs) < 1"
  defines "frame \<equiv> render stars mode observationalPower activeFilters observer
                     width height refs time"
    and "env \<equiv> frameEnv mode observationalPower activeFilters observer width height refs time"
    and "elapsed \<equiv> time - startTime (transitionRef refs)"
  defines "stored \<equiv> progress (transitionRef (frame_refs frame))"
    and "sourcePos \<equiv> getScreenPos s (min width height * 0.4) time
                        (fst (horizontal observer s)) (snd (horizontal observer s))
                        (sourceMode (transitionRef (frame_refs frame)))"
    and "targetPos \<equiv> getScreenPos s (min width height * 0.4) time
                        (fst (horizontal observer s)) (snd (horizontal observer s))
                        (targetMode (transitionRef (frame_refs frame)))"
  shows "stored = 1 - (1 - min (elapsed / 1500) 1) ^ 3
     \<and> (0 \<le> elapsed \<longrightarrow> stored = 1 - (1 - max 0 (min (elapsed / 1500) 1)) ^ 3)
     \<and> (renderStar env s = Drawn c
          \<longrightarrow> cmd_x c - width / 2 = fst sourcePos + (fst targetPos - fst sourcePos) * stored
            \<and> cmd_y c - height / 2 = snd sourcePos + (snd targetPos - snd sourcePos) * stored)
     \<and> sourceMode (transitionRef (frame_refs frame)) = sourceMode (transitionRef refs)
     \<and> targetMode (transitionRef (frame_refs frame)) = targetMode (transitionRef refs)
     \<and> startTime (transitionRef (frame_refs frame)) = startTime (transitionRef refs)
     \<and> duration (transitionRef (frame_refs frame)) = 1500"
proof -
  from assms(1) have d: "duration (transitionRef refs) = 1500"
    by (simp add: reachable_invariant)
  have t: "transitionRef (frame_refs frame) = fst (transitionMath (transitionRef refs) time)"
    by (simp add: frame_def render_simps)
  from assms(2) d have p: "stored = 1 - (1 - min (elapsed / 1500) 1) ^ 3"
    by (simp add: stored_def t transitionMath_def Let_def elapsed_def)
  have e: "env_t env = stored" "env_transition env = transitionRef (frame_refs frame)"
    "env_centerX env = width / 2" "env_centerY env = height / 2"
    "env_scaleFactor env = min width height * 0.4" "env_time env = time"
    "env_currentObserver env = observer"
    by (simp_all add: env_def frameEnv_simps stored_def t transitionMath_snd)
  have x: "cmd_x c - width / 2 = fst sourcePos + (fst targetPos - fst sourcePos) * stored"
    and y: "cmd_y c - height / 2 = snd sourcePos + (snd targetPos - snd sourcePos) * stored"
    if "renderStar env s = Drawn c"
    using renderStar_Drawn_pos [OF that]
    by (simp_all add: e sourcePos_def targetPos_def)
  have q: "stored = 1 - (1 - max 0 (min (elapsed / 1500) 1)) ^ 3" if "0 \<le> elapsed"
  proof -
    from that have "max 0 (min (elapsed / 1500) 1) = min (elapsed / 1500) 1"
      by simp
    with p show ?thesis by simp
  qed
  from p q x y d show ?thesis
    by (simp add: t transitionMath_modes)
qed

text \<open>
  An instance, on a transition from Sky to the HR diagram requested at time 0, on the
  frame at 750 ms: the stored progress is \<open>1 - (1/2)^3 = 7/8\<close>. A star at the zenith of
  the pole observer (Sky offset 0) with \<open>hrX = 1/2\<close> (HR offset \<open>1/2 * 240 * 1.5 = 180\<close>)
  is painted at the horizontal offset \<open>0 + (180 - 0) * 7/8 = 157.5\<close>.
\<close>

lemma easing_and_blend_example:
  "reachable (transitionRef \<lparr>transitionRef = requestMode HR_DIAGRAM 0 (initialTransition SKY),
                             lastTimeRef = 734\<rparr>)
   \<and> progress (transitionRef \<lparr>transitionRef = requestMode HR_DIAGRAM 0 (initialTransition SKY),
                               lastTimeRef = 734\<rparr>) < 1
   \<and> progress (transitionRef (frame_refs
        (render [(probeStar 90 3)\<lparr>hrX := 1 / 2\<rparr>] HR_DIAGRAM 0.05 [Sp_G] poleObserver 800 600
           \<lparr>transitionRef = requestMode HR_DIAGRAM 0 (initialTransition SKY),
            lastTimeRef = 734\<rparr> 750)))
       = 7 / 8
   \<and> is_Drawn (renderStar
        (frameEnv HR_DIAGRAM 0.05 [Sp_G] poleObserver 800 600
           \<lparr>transitionRef = requestMode HR_DIAGRAM 0 (initialTransition SKY),
            lastTimeRef = 734\<rparr> 750)
        ((probeStar 90 3)\<lparr>hrX := 1 / 2\<rparr>))
   \<and> cmd_x (the_cmd (renderStar
        (frameEnv HR_DIAGRAM 0.05 [Sp_G] poleObserver 800 600
           \<lparr>transitionRef = requestMode HR_DIAGRAM 0 (initialTransition SKY),
            lastTimeRef = 734\<rparr> 750)
        ((probeStar 90 3)\<lparr>hrX := 1 / 2\<rparr>))) - 800 / 2
       = 157.5"
proof -
  let ?refs = "\<lparr>transitionRef = requestMode HR_DIAGRAM 0 (initialTransition SKY),
                lastTimeRef = 734\<rparr>"
  let ?s = "(probeStar 90 3)\<lparr>hrX := 1 / 2\<rparr>"
  let ?env = "frameEnv HR_DIAGRAM 0.05 [Sp_G] poleObserver 800 600 ?refs 750"
  have r: "reachable (transitionRef ?refs)"
    by (simp add: reachable_init reachable_request)
  have p: "progress (transitionRef ?refs) < 1"
    by (simp add: requestMode_def initialTransition_def)
  have alt: "fst (horizontal poleObserver ?s) = 90"
    by (rule horizontal_pole_zenith) (simp_all add: probeStar_def poleObserver_simps)
  have lim: "effectiveLimit (1 / 20) poleObserver = 18 / 5"
    by (simp add: limit_defs poleObserver_simps)
  have t: "transitionMath (transitionRef ?refs) 750
             = (\<lparr>progress = 7 / 8, sourceMode = SKY, targetMode = HR_DIAGRAM, startTime = 0,
                 duration = 1500\<rparr>, 7 / 8)"
    by (simp add: transitionMath_def requestMode_def initialTransition_def Let_def
        power3_eq_cube)
  have s: "spectralType ?s = Sp_G" "apparentMagnitude ?s = 3" "hrX ?s = 1 / 2"
    by (simp_all add: probeStar_def)
  have d: "is_Drawn (renderStar ?env ?s)"
    by (simp add: renderStar_def frameEnv_simps t lim alt s split_def Let_def
        starAlpha_def fadeAlpha_def extinctionFactor_def extinction_def)
  then obtain c where c: "renderStar ?env ?s = Drawn c"
    by (cases "renderStar ?env ?s") simp_all
  note inst = easing_and_blend [OF r p, where stars = "[?s]" and mode = HR_DIAGRAM
      and observationalPower = "0.05" and activeFilters = "[Sp_G]" and observer = poleObserver
      and width = 800 and height = 600 and time = 750 and s = ?s and c = c]
  from inst have a: "progress (transitionRef (frame_refs
        (render [?s] HR_DIAGRAM 0.05 [Sp_G] poleObserver 800 600 ?refs 750))) = 7 / 8"
    by (simp add: requestMode_def initialTransition_def power3_eq_cube)
  from inst c a have "cmd_x c - 800 / 2 = 157.5"
    by (simp add: getScreenPos_def alt s requestMode_def initialTransition_def Let_def)
  with c have b: "cmd_x (the_cmd (renderStar ?env ?s)) - 800 / 2 = 157.5"
    by simp
  from r p a d b show ?thesis by simp
qed

section \<open>Horizon culling\<close>

text \<open>
  C8: on a frame whose stored progress (after the update of the frame) is 1 or more, with
  Sky or Classification as the active mode, a star whose altitude is strictly below
  \<open>-5\<close> degrees leaves the callback before it is projected: at the global filters or at
  the hard cull, and at the hard cull if it passed the filters. It is neither painted nor
  counted. On a frame whose stored progress is below 1, no star is culled.
\<close>

theorem horizon_cull:
  fixes stars :: "Star list" and mode :: AppMode and observationalPower :: real
    and activeFilters :: "SpectralType list" and observer :: ObserverState
    and width height time :: real and refs :: Refs and s :: Star
  defines "frame \<equiv> render stars mode observationalPower activeFilters observer
                     width height refs time"
    and "env \<equiv> frameEnv mode observationalPower activeFilters observer width height refs time"
    and "altDeg \<equiv> fst (horizontal observer s)"
  defines "stored \<equiv> progress (transitionRef (frame_refs frame))"
  shows "(stored \<ge> 1 \<and> (mode = SKY \<or> mode = CLASSIFICATION) \<and> altDeg < - 5
          \<longrightarrow> (renderStar env s = Filtered \<or> renderStar env s = Culled)
            \<and> \<not> is_Drawn (renderStar env s))
     \<and> (stored \<ge> 1 \<and> (mode = SKY \<or> mode = CLASSIFICATION) \<and> altDeg < - 5
          \<and> spectralType s \<in> set activeFilters
          \<and> apparentMagnitude s \<le> effectiveLimit observationalPower observer
          \<longrightarrow> renderStar env s = Culled)
     \<and> (stored < 1 \<longrightarrow> renderStar env s \<noteq> Culled)
     \<and> frame_painted frame
         = map (\<lambda>s. the_cmd (renderStar env s)) (filter (\<lambda>s. is_Drawn (renderStar env s)) stars)
     \<and> frame_setStats frame = length (filter (\<lambda>s. is_Drawn (renderStar env s)) stars)"
proof -
  have e: "progress (env_transition env) = stored" "env_mode env = mode"
    "env_currentObserver env = observer" "env_activeFilters env = activeFilters"
    "env_effectiveLimit env = effectiveLimit observationalPower observer"
    by (simp_all add: env_def frameEnv_simps stored_def frame_def render_simps)
  have c: "renderStar env s = Culled \<longleftrightarrow>
     spectralType s \<in> set activeFilters
     \<and> apparentMagnitude s \<le> effectiveLimit observationalPower observer
     \<and> stored \<ge> 1 \<and> (mode = SKY \<or> mode = CLASSIFICATION) \<and> altDeg < - 5"
    by (simp add: renderStar_Culled_iff e altDeg_def)
  have f: "renderStar env s = Filtered"
    if "\<not> (spectralType s \<in> set activeFilters
           \<and> apparentMagnitude s \<le> effectiveLimit observationalPower observer)"
    using that by (auto simp add: renderStar_def e)
  have "(renderStar env s = Filtered \<or> renderStar env s = Culled)
            \<and> \<not> is_Drawn (renderStar env s)"
    if "stored \<ge> 1 \<and> (mode = SKY \<or> mode = CLASSIFICATION) \<and> altDeg < - 5"
  proof (cases "spectralType s \<in> set activeFilters
           \<and> apparentMagnitude s \<le> effectiveLimit observationalPower observer")
    case True
    with that c have "renderStar env s = Culled" by simp
    then show ?thesis by simp
  next
    case False
    then have "renderStar env s = Filtered" by (rule f)
    then show ?thesis by simp
  qed
  moreover have "renderStar env s \<noteq> Culled" if "stored < 1"
    using that c by simp
  moreover have "renderStar env s = Culled"
    if "stored \<ge> 1 \<and> (mode = SKY \<or> mode = CLASSIFICATION) \<and> altDeg < - 5
          \<and> spectralType s \<in> set activeFilters
          \<and> apparentMagnitude s \<le> effectiveLimit observationalPower observer"
    using that c by simp
  ultimately show ?thesis
    by (simp add: frame_def env_def render_simps)
qed

text \<open>
  C8 for a star of magnitude 3 at the nadir of the pole observer (altitude \<open>-90\<close>): on an
  idle Sky frame it is culled and the count is 0; on the frame at 750 ms of a transition
  from the Galaxy to Sky requested at time 0 (stored progress \<open>7/8\<close>) it is not culled
  (its alpha is 0, so it is not painted either).
\<close>

theorem horizon_cull_witness:
  "progress (transitionRef (frame_refs
       (render [probeStar (- 90) 3] SKY 0.05 [Sp_G] poleObserver 800 600 (initialRefs SKY) 16)))
     \<ge> 1
   \<and> fst (horizontal poleObserver (probeStar (- 90) 3)) < - 5
   \<and> spectralType (probeStar (- 90) 3) \<in> set [Sp_G]
   \<and> apparentMagnitude (probeStar (- 90) 3) \<le> effectiveLimit 0.05 poleObserver
   \<and> renderStar (frameEnv SKY 0.05 [Sp_G] poleObserver 800 600 (initialRefs SKY) 16)
        (probeStar (- 90) 3) = Culled
   \<and> frame_setStats
       (render [probeStar (- 90) 3] SKY 0.05 [Sp_G] poleObserver 800 600 (initialRefs SKY) 16)
      = 0
   \<and> progress (transitionRef (frame_refs
       (render [probeStar (- 90) 3] SKY 0.05 [Sp_G] poleObserver 800 600
          \<lparr>transitionRef = requestMode SKY 0 (initialTransition GALAXY), lastTimeRef = 734\<rparr>
          750)))
     < 1
   \<and> renderStar (frameEnv SKY 0.05 [Sp_G] poleObserver 800 600
          \<lparr>transitionRef = requestMode SKY 0 (initialTransition GALAXY), lastTimeRef = 734\<rparr>
          750)
        (probeStar (- 90) 3) \<noteq> Culled"
proof -
  let ?s = "probeStar (- 90) 3"
  let ?refs = "\<lparr>transitionRef = requestMode SKY 0 (initialTransition GALAXY),
                lastTimeRef = 734\<rparr>"
  have alt: "fst (horizontal poleObserver ?s) = - 90"
    by (rule horizontal_pole_nadir) (simp_all add: probeStar_simps poleObserver_simps)
  have lim: "effectiveLimit (1 / 20) poleObserver = 18 / 5"
    by (simp add: limit_defs poleObserver_simps)
  have p1: "progress (transitionRef (frame_refs
       (render [?s] SKY 0.05 [Sp_G] poleObserver 800 600 (initialRefs SKY) 16))) \<ge> 1"
    by (simp add: render_simps transitionMath_def initialRefs_def initialTransition_def)
  have p2: "progress (transitionRef (frame_refs
       (render [?s] SKY 0.05 [Sp_G] poleObserver 800 600 ?refs 750))) < 1"
    by (simp add: render_simps transitionMath_def requestMode_def initialTransition_def
        Let_def power3_eq_cube)
  have h: "fst (horizontal poleObserver ?s) < - 5"
    "spectralType ?s \<in> set [Sp_G]"
    "apparentMagnitude ?s \<le> effectiveLimit 0.05 poleObserver"
    by (simp_all add: alt lim probeStar_simps)
  note idle = horizon_cull [where stars = "[?s]" and mode = SKY and observationalPower = "0.05"
      and activeFilters = "[Sp_G]" and observer = poleObserver and width = 800
      and height = 600 and refs = "initialRefs SKY" and time = 16 and s = ?s]
  from idle p1 h
  have a: "renderStar (frameEnv SKY 0.05 [Sp_G] poleObserver 800 600 (initialRefs SKY) 16) ?s
             = Culled"
    by simp
  with idle
  have n: "frame_setStats
       (render [?s] SKY 0.05 [Sp_G] poleObserver 800 600 (initialRefs SKY) 16) = 0"
    by simp
  from horizon_cull [where stars = "[?s]" and mode = SKY and observationalPower = "0.05"
      and activeFilters = "[Sp_G]" and observer = poleObserver and width = 800
      and height = 600 and refs = ?refs and time = 750 and s = ?s] p2
  have b: "renderStar (frameEnv SKY 0.05 [Sp_G] poleObserver 800 600 ?refs 750) ?s \<noteq> Culled"
    by simp
  from p1 h a n p2 b show ?thesis by simp
qed

section \<open>Monotonicity of the effective limit\<close>

text \<open>
  C9: for a fixed observer (hence a fixed \<open>lightPollutionLimit\<close>), the effective limit is
  \<open>min (3 + 12 p) ((2.5 + 4.5 L) + 5 p)\<close> and is non-decreasing in the observational
  power \<open>p\<close>.
\<close>

theorem effectiveLimit_mono:
  "effectiveLimit p obs = min (3 + 12 * p) ((2.5 + 4.5 * lightPollutionLimit obs) + 5 * p)
   \<and> (p1 \<le> p2 \<longrightarrow> effectiveLimit p1 obs \<le> effectiveLimit p2 obs)"
  by (auto simp add: limit_defs min_def)

text \<open>C9 for the default observer, between the naked-eye power 0.05 and 0.5.\<close>

theorem effectiveLimit_mono_witness:
  "(0.05::real) \<le> 0.5
   \<and> effectiveLimit 0.05 defaultObserver \<le> effectiveLimit 0.5 defaultObserver"
  using effectiveLimit_mono [of "0.05" defaultObserver "0.05" "0.5"] by simp
section \<open>Range of the alpha handed to the drawing surface\<close>

text \<open>
  C10: in every frame of a component whose transition state is reachable, every circle
  that is painted has an alpha strictly above 0 and at most 1, although no final clamp
  is applied. The reasons are as the claim gives them: the magnitude fade of a star that
  passed the magnitude filter is in \<open>[0, 1]\<close>; the extinction factor of the frame (plain
  or blended) is at most 1; the horizon fade is at most 1; and a star whose product is
  not positive is skipped.
\<close>

theorem painted_alpha_in_range:
  assumes "reachable (transitionRef refs)"
  shows "(\<forall>c \<in> set (frame_painted
                     (render stars mode observationalPower activeFilters observer
                        width height refs time)).
           0 < cmd_globalAlpha c \<and> cmd_globalAlpha c \<le> 1)
     \<and> (apparentMagnitude s \<le> effectiveLimit observationalPower observer
          \<longrightarrow> 0 \<le> fadeAlpha (effectiveLimit observationalPower observer) s
            \<and> fadeAlpha (effectiveLimit observationalPower observer) s \<le> 1)
     \<and> extinctionFactor mode
          (env_transition (frameEnv mode observationalPower activeFilters observer
                             width height refs time))
          (env_t (frameEnv mode observationalPower activeFilters observer
                    width height refs time)) altDeg \<le> 1
     \<and> (altDeg < 0 \<longrightarrow> max 0 (1 + (altDeg / 5)) \<le> 1)"
proof -
  let ?env = "frameEnv mode observationalPower activeFilters observer width height refs time"
  from assms have "progress (transitionRef refs) \<le> 1"
    by (simp add: reachable_invariant)
  then have t: "env_t ?env \<le> 1"
    by (simp add: frameEnv_simps transitionMath_snd transitionMath_le_1)
  have "0 < cmd_globalAlpha c \<and> cmd_globalAlpha c \<le> 1"
    if "c \<in> set (frame_painted
                    (render stars mode observationalPower activeFilters observer
                       width height refs time))" for c
  proof -
    from that obtain s' where "is_Drawn (renderStar ?env s')" "c = the_cmd (renderStar ?env s')"
      by (auto simp add: render_simps)
    then have d: "renderStar ?env s' = Drawn c" by simp
    from renderStar_Drawn_alpha [OF d] starAlpha_le_1 [OF t]
    show ?thesis by simp
  qed
  moreover have "extinctionFactor mode (env_transition ?env) (env_t ?env) altDeg \<le> 1"
    by (rule extinctionFactor_le_1 [OF t])
  ultimately show ?thesis
    by (simp add: fadeAlpha_range)
qed

text \<open>
  C10 on a frame in the middle of a transition from Sky to Galaxy (requested at time 0,
  frame at 750 ms, eased progress \<open>7/8\<close>): a star of magnitude 3 on the horizon of the
  pole observer is painted with alpha \<open>0.6 * (0.3 + 0.7 * 7/8) = 0.5475\<close>.
\<close>

theorem painted_alpha_in_range_witness:
  "reachable (transitionRef \<lparr>transitionRef = requestMode GALAXY 0 (initialTransition SKY),
                             lastTimeRef = 1\<rparr>)
   \<and> frame_painted (render [probeStar 0 3] GALAXY 0.05 [Sp_G] poleObserver 800 600
         \<lparr>transitionRef = requestMode GALAXY 0 (initialTransition SKY), lastTimeRef = 1\<rparr> 750)
        \<noteq> []
   \<and> 0 < cmd_globalAlpha (hd (frame_painted
         (render [probeStar 0 3] GALAXY 0.05 [Sp_G] poleObserver 800 600
            \<lparr>transitionRef = requestMode GALAXY 0 (initialTransition SKY), lastTimeRef = 1\<rparr>
            750)))
   \<and> cmd_globalAlpha (hd (frame_painted
         (render [probeStar 0 3] GALAXY 0.05 [Sp_G] poleObserver 800 600
            \<lparr>transitionRef = requestMode GALAXY 0 (initialTransition SKY), lastTimeRef = 1\<rparr>
            750))) \<le> 1
   \<and> cmd_globalAlpha (hd (frame_painted
         (render [probeStar 0 3] GALAXY 0.05 [Sp_G] poleObserver 800 600
            \<lparr>transitionRef = requestMode GALAXY 0 (initialTransition SKY), lastTimeRef = 1\<rparr>
            750))) = 0.5475"
proof -
  let ?refs = "\<lparr>transitionRef = requestMode GALAXY 0 (initialTransition SKY), lastTimeRef = 1\<rparr>"
  let ?painted = "frame_painted (render [probeStar 0 3] GALAXY 0.05 [Sp_G] poleObserver
                                   800 600 ?refs 750)"
  have r: "reachable (transitionRef ?refs)"
    by (simp add: reachable_init reachable_request)
  have alt: "fst (horizontal poleObserver (probeStar 0 3)) = 0"
    by (rule horizontal_pole_horizon) (simp_all add: probeStar_simps poleObserver_simps)
  have a: "map cmd_globalAlpha ?painted = [0.5475]"
    by (simp add: render_simps frameEnv_simps renderStar_def split_def Let_def alt
        transitionMath_def requestMode_def initialTransition_def starAlpha_def fadeAlpha_def
        extinctionFactor_def extinction_def limit_defs probeStar_simps poleObserver_simps
        power3_eq_cube)
  then have n: "?painted \<noteq> []" by auto
  then have "hd ?painted \<in> set ?painted" by simp
  with painted_alpha_in_range [OF r, of "[probeStar 0 3]" GALAXY "0.05" "[Sp_G]" poleObserver
      800 600 750]
  have b: "0 < cmd_globalAlpha (hd ?painted)" "cmd_globalAlpha (hd ?painted) \<le> 1"
    by blast+
  from a n have "cmd_globalAlpha (hd ?painted) = 0.5475"
    by (cases ?painted) simp_all
  with r n b show ?thesis by simp
qed

end
